theory Spec2Isabelle
  imports Complex_Main
begin

section \<open>Relationship records of the town simulation (companionship.py)\<close>

text \<open>
  The module defines four classes, \<open>Acquaintance\<close>, \<open>Enmity\<close>, \<open>Friendship\<close> and
  \<open>Kinship\<close>. Their instances are mutable objects that point at one another
  (\<open>preceded_by\<close>, \<open>succeeded_by\<close>) and at the two people concerned, so the embedding uses
  an explicit store: people and relationship objects are addressed by references, and every
  method takes the world and returns the updated world.

  Python floats are read as real numbers. Exceptions are values of \<open>py_error\<close>; the store
  an aborted call leaves behind is not tracked.
\<close>

subsection \<open>Collaborators: personality, configuration, people\<close>

type_synonym person_ref = nat
type_synonym rel_ref = nat
type_synonym location = nat
type_synonym date = nat

datatype py_error = AttributeError | KeyError | DanglingReference

record personality =
  openness_to_experience :: real
  conscientiousness :: real
  extroversion :: real
  agreeableness :: real
  neuroticism :: real

text \<open>
  The configuration object is not part of the module; it is a parameter. The five
  \<open>*_boost_to_spark_multiplier\<close> attributes are dictionaries indexed by the strings
  \<open>''m''\<close> and \<open>''f''\<close>, and the age function is called with the two ages.
\<close>

record config =
  owner_extroversion_boost_to_charge_multiplier :: real
  subject_agreeableness_boost_to_charge_multiplier :: real
  charge_intensity_reduction_due_to_sex_difference :: real
  openness_boost_to_spark_multiplier :: "string \<rightharpoonup> real"
  conscientiousness_boost_to_spark_multiplier :: "string \<rightharpoonup> real"
  extroversion_boost_to_spark_multiplier :: "string \<rightharpoonup> real"
  agreeableness_boost_to_spark_multiplier :: "string \<rightharpoonup> real"
  neuroticism_boost_to_spark_multiplier :: "string \<rightharpoonup> real"
  spark_decay_rate :: real
  charge_threshold_friendship :: real
  charge_threshold_enmity :: real
  function_to_determine_how_age_difference_reduces_charge_intensity :: "int \<Rightarrow> int \<Rightarrow> real"

record game =
  date :: date
  config :: config

datatype observation = Observation (obs_subject: person_ref) (obs_source: person_ref)

text \<open>
  A person as the module reads and writes it: \<open>relationships\<close> is the ledger
  (a dictionary from the other person to the current relationship object) and
  \<open>mental_models\<close> stands for \<open>mind.mental_models\<close>, a dictionary from the other
  person to the model held of them, kept here as the observations folded into it.
\<close>

record person =
  personality :: personality
  male :: bool
  female :: bool
  attracted_to_men :: bool
  attracted_to_women :: bool
  extended_family :: "person_ref set"
  age :: int
  location :: location
  game :: game
  relationships :: "person_ref \<rightharpoonup> rel_ref"
  mental_models :: "person_ref \<rightharpoonup> observation list"

subsection \<open>The four classes\<close>

record kinship =
  k_type :: string
  k_owner :: person_ref
  k_subject :: person_ref
  k_relationship :: string
  k_succeeded_by :: "rel_ref option"
  k_where_they_met :: "location option"
  k_when_they_met :: "date option"

record acquaintance =
  a_type :: string
  a_owner :: person_ref
  a_subject :: person_ref
  a_preceded_by :: "rel_ref option"
  a_succeeded_by :: "rel_ref option"
  a_where_they_met :: "location option"
  a_when_they_met :: "date option"
  a_compatibility :: real
  a_charge_increment :: real
  a_charge :: real
  a_spark_increment :: real
  a_spark :: real

record enmity =
  e_type :: string
  e_owner :: person_ref
  e_subject :: person_ref
  e_preceded_by :: "rel_ref option"
  e_succeeded_by :: "rel_ref option"
  e_where_they_met :: "location option"
  e_when_they_met :: "date option"
  e_charge_increment :: real
  e_charge :: real

record friendship =
  f_type :: string
  f_owner :: person_ref
  f_subject :: person_ref
  f_preceded_by :: "rel_ref option"
  f_succeeded_by :: "rel_ref option"
  f_where_they_met :: "location option"
  f_when_they_met :: "date option"
  f_charge_increment :: real
  f_charge :: real

datatype relationship =
    Acquaintance acquaintance
  | Enmity enmity
  | Friendship friendship
  | Kinship kinship

text \<open>
  The world: every person, and the relationship objects in allocation order. A reference
  to a relationship object is its position, so a newly constructed object gets the
  reference \<open>length (objects w)\<close>.
\<close>

record world =
  persons :: "person_ref \<Rightarrow> person"
  objects :: "relationship list"

subsection \<open>Attribute access on an object of any of the four classes\<close>

fun attr_succeeded_by :: "relationship \<Rightarrow> rel_ref option" where
  "attr_succeeded_by (Acquaintance a) = a_succeeded_by a"
| "attr_succeeded_by (Enmity e) = e_succeeded_by e"
| "attr_succeeded_by (Friendship f) = f_succeeded_by f"
| "attr_succeeded_by (Kinship k) = k_succeeded_by k"

fun set_succeeded_by :: "rel_ref option \<Rightarrow> relationship \<Rightarrow> relationship" where
  "set_succeeded_by s (Acquaintance a) = Acquaintance (a\<lparr>a_succeeded_by := s\<rparr>)"
| "set_succeeded_by s (Enmity e) = Enmity (e\<lparr>e_succeeded_by := s\<rparr>)"
| "set_succeeded_by s (Friendship f) = Friendship (f\<lparr>f_succeeded_by := s\<rparr>)"
| "set_succeeded_by s (Kinship k) = Kinship (k\<lparr>k_succeeded_by := s\<rparr>)"

text \<open>A \<open>Kinship\<close> object has no \<open>preceded_by\<close>, \<open>charge_increment\<close> or \<open>charge\<close> attribute.\<close>

fun attr_preceded_by :: "relationship \<Rightarrow> py_error + rel_ref option" where
  "attr_preceded_by (Acquaintance a) = Inr (a_preceded_by a)"
| "attr_preceded_by (Enmity e) = Inr (e_preceded_by e)"
| "attr_preceded_by (Friendship f) = Inr (f_preceded_by f)"
| "attr_preceded_by (Kinship k) = Inl AttributeError"

fun attr_where_they_met :: "relationship \<Rightarrow> location option" where
  "attr_where_they_met (Acquaintance a) = a_where_they_met a"
| "attr_where_they_met (Enmity e) = e_where_they_met e"
| "attr_where_they_met (Friendship f) = f_where_they_met f"
| "attr_where_they_met (Kinship k) = k_where_they_met k"

fun attr_when_they_met :: "relationship \<Rightarrow> date option" where
  "attr_when_they_met (Acquaintance a) = a_when_they_met a"
| "attr_when_they_met (Enmity e) = e_when_they_met e"
| "attr_when_they_met (Friendship f) = f_when_they_met f"
| "attr_when_they_met (Kinship k) = k_when_they_met k"

fun attr_charge_increment :: "relationship \<Rightarrow> py_error + real" where
  "attr_charge_increment (Acquaintance a) = Inr (a_charge_increment a)"
| "attr_charge_increment (Enmity e) = Inr (e_charge_increment e)"
| "attr_charge_increment (Friendship f) = Inr (f_charge_increment f)"
| "attr_charge_increment (Kinship k) = Inl AttributeError"

fun attr_charge :: "relationship \<Rightarrow> py_error + real" where
  "attr_charge (Acquaintance a) = Inr (a_charge a)"
| "attr_charge (Enmity e) = Inr (e_charge e)"
| "attr_charge (Friendship f) = Inr (f_charge f)"
| "attr_charge (Kinship k) = Inl AttributeError"

fun attr_type :: "relationship \<Rightarrow> string" where
  "attr_type (Acquaintance a) = a_type a"
| "attr_type (Enmity e) = e_type e"
| "attr_type (Friendship f) = f_type f"
| "attr_type (Kinship k) = k_type k"

fun attr_owner :: "relationship \<Rightarrow> person_ref" where
  "attr_owner (Acquaintance a) = a_owner a"
| "attr_owner (Enmity e) = e_owner e"
| "attr_owner (Friendship f) = f_owner f"
| "attr_owner (Kinship k) = k_owner k"

fun attr_subject :: "relationship \<Rightarrow> person_ref" where
  "attr_subject (Acquaintance a) = a_subject a"
| "attr_subject (Enmity e) = e_subject e"
| "attr_subject (Friendship f) = f_subject f"
| "attr_subject (Kinship k) = k_subject k"

subsection \<open>Store operations\<close>

definition deref :: "world \<Rightarrow> rel_ref \<Rightarrow> py_error + relationship" where
  \<comment> \<open>Python references always point at a live object; the error branch is the model's.\<close>
  "deref w r = (if r < length (objects w) then Inr (objects w ! r) else Inl DanglingReference)"

definition store :: "rel_ref \<Rightarrow> relationship \<Rightarrow> world \<Rightarrow> world" where
  "store r obj w = w\<lparr>objects := (objects w)[r := obj]\<rparr>"

definition allocate :: "relationship \<Rightarrow> world \<Rightarrow> world" where
  "allocate obj w = w\<lparr>objects := objects w @ [obj]\<rparr>"

definition set_relationship :: "person_ref \<Rightarrow> person_ref \<Rightarrow> rel_ref \<Rightarrow> world \<Rightarrow> world" where
  \<comment> \<open>\<open>owner.relationships[subject] = self\<close>\<close>
  "set_relationship owner subject self w =
     w\<lparr>persons := (persons w)
        (owner := (persons w owner)\<lparr>relationships := (relationships (persons w owner))(subject \<mapsto> self)\<rparr>)\<rparr>"

definition link_predecessor :: "rel_ref \<Rightarrow> rel_ref \<Rightarrow> world \<Rightarrow> py_error + world" where
  \<comment> \<open>\<open>preceded_by.succeeded_by = self\<close>\<close>
  "link_predecessor p self w =
     (case deref w p of
        Inl e \<Rightarrow> Inl e
      | Inr obj \<Rightarrow> Inr (store p (set_succeeded_by (Some self) obj) w))"

definition bind_err :: "py_error + 'a \<Rightarrow> ('a \<Rightarrow> py_error + 'b) \<Rightarrow> py_error + 'b" where
  \<comment> \<open>sequencing: an exception raised by the first part ends the call\<close>
  "bind_err m f = (case m of Inl e \<Rightarrow> Inl e | Inr x \<Rightarrow> f x)"

definition getitem :: "(string \<rightharpoonup> real) \<Rightarrow> string \<Rightarrow> py_error + real" where
  \<comment> \<open>\<open>d[key]\<close> on a dictionary\<close>
  "getitem d key = (case d key of None \<Rightarrow> Inl KeyError | Some v \<Rightarrow> Inr v)"

subsection \<open>Class Acquaintance: the values computed at construction\<close>

text \<open>
  The methods whose Python names start with an underscore are written without it. They
  read \<open>self.owner\<close> and \<open>self.subject\<close>, passed here as the two people.
\<close>

definition init_get_compatibility :: "person \<Rightarrow> person \<Rightarrow> real" where
  "init_get_compatibility own sub =
     (let diff =
            \<bar>openness_to_experience (personality own) - openness_to_experience (personality sub)\<bar> +
            \<bar>extroversion (personality own) - extroversion (personality sub)\<bar> +
            \<bar>agreeableness (personality own) - agreeableness (personality sub)\<bar>;
          normalized_diff = (3 - diff) / 3;
          compatibility = normalized_diff
      in compatibility)"

definition init_determine_charge_increment :: "real \<Rightarrow> person \<Rightarrow> person \<Rightarrow> real" where
  \<comment> \<open>the first argument is \<open>self.compatibility\<close>\<close>
  "init_determine_charge_increment compatibility own sub =
     (let config = config (game own);
          incr =
            compatibility +
            extroversion (personality own) * owner_extroversion_boost_to_charge_multiplier config +
            agreeableness (personality sub) * subject_agreeableness_boost_to_charge_multiplier config
      in if male own \<noteq> male sub
         then incr * charge_intensity_reduction_due_to_sex_difference config
         else incr)"

definition affect_initial_spark_increment_by_own_personality :: "person \<Rightarrow> person \<Rightarrow> py_error + real" where
  "affect_initial_spark_increment_by_own_personality own sub =
     (let config = config (game own);
          sex_key = (if male own then ''m'' else ''f'');
          effect0 = 0
      in bind_err (getitem (openness_boost_to_spark_multiplier config) sex_key) (\<lambda>m1.
         let effect1 = effect0 + openness_to_experience (personality sub) * m1
         in bind_err (getitem (conscientiousness_boost_to_spark_multiplier config) sex_key) (\<lambda>m2.
         let effect2 = effect1 + conscientiousness (personality sub) * m2
         in bind_err (getitem (extroversion_boost_to_spark_multiplier config) sex_key) (\<lambda>m3.
         let effect3 = effect2 + extroversion (personality sub) * m3
         in bind_err (getitem (agreeableness_boost_to_spark_multiplier config) sex_key) (\<lambda>m4.
         let effect4 = effect3 + agreeableness (personality sub) * m4
         in bind_err (getitem (neuroticism_boost_to_spark_multiplier config) sex_key) (\<lambda>m5.
         let effect5 = effect4 + neuroticism (personality sub) * m5
         in Inr effect5))))))"

definition affect_initial_spark_increment_by_acquaintance_personality :: "person \<Rightarrow> person \<Rightarrow> py_error + real" where
  "affect_initial_spark_increment_by_acquaintance_personality own sub =
     (let config = config (game own);
          sex_key = (if male own then ''m'' else ''f'');
          effect0 = 0
      in bind_err (getitem (openness_boost_to_spark_multiplier config) sex_key) (\<lambda>m1.
         let effect1 = effect0 + openness_to_experience (personality sub) * m1
         in bind_err (getitem (conscientiousness_boost_to_spark_multiplier config) sex_key) (\<lambda>m2.
         let effect2 = effect1 + conscientiousness (personality sub) * m2
         in bind_err (getitem (extroversion_boost_to_spark_multiplier config) sex_key) (\<lambda>m3.
         let effect3 = effect2 + extroversion (personality sub) * m3
         in bind_err (getitem (agreeableness_boost_to_spark_multiplier config) sex_key) (\<lambda>m4.
         let effect4 = effect3 + agreeableness (personality sub) * m4
         in bind_err (getitem (neuroticism_boost_to_spark_multiplier config) sex_key) (\<lambda>m5.
         let effect5 = effect4 + neuroticism (personality sub) * m5
         in Inr effect5))))))"

definition init_determine_initial_spark_increment :: "person_ref \<Rightarrow> person_ref \<Rightarrow> world \<Rightarrow> py_error + real" where
  \<comment> \<open>membership in \<open>extended_family\<close> is by identity of the person, hence the references\<close>
  "init_determine_initial_spark_increment owner subject w =
     (let own = persons w owner; sub = persons w subject
      in if subject \<in> extended_family own then Inr 0
         else if male sub \<and> \<not> attracted_to_men own then Inr 0
         else if female sub \<and> \<not> attracted_to_women own then Inr 0
         else bind_err (affect_initial_spark_increment_by_own_personality own sub) (\<lambda>x1.
              bind_err (affect_initial_spark_increment_by_acquaintance_personality own sub) (\<lambda>x2.
              Inr (0 + x1 + x2))))"

text \<open>
  Modelled from the spec: the classes \<open>PersonMentalModel\<close> and \<open>Observation\<close> and the
  method \<open>build_up\<close> belong to the module \<open>belief\<close>, which is not among the sources.
  Following the description of the mental-model bridge, constructing a
  \<open>PersonMentalModel\<close> creates the owner's model of the subject from the observation, and
  \<open>build_up\<close> folds a further observation into the existing model.
\<close>

definition PersonMentalModel :: "person_ref \<Rightarrow> person_ref \<Rightarrow> observation \<Rightarrow> world \<Rightarrow> world" where
  "PersonMentalModel owner subject observation_or_reflection w =
     w\<lparr>persons := (persons w)
        (owner := (persons w owner)\<lparr>mental_models :=
           (mental_models (persons w owner))(subject \<mapsto> [observation_or_reflection])\<rparr>)\<rparr>"

definition build_up :: "person_ref \<Rightarrow> person_ref \<Rightarrow> observation list \<Rightarrow> observation \<Rightarrow> world \<Rightarrow> world" where
  "build_up owner subject model new_observation_or_reflection w =
     w\<lparr>persons := (persons w)
        (owner := (persons w owner)\<lparr>mental_models :=
           (mental_models (persons w owner))(subject \<mapsto> model @ [new_observation_or_reflection])\<rparr>)\<rparr>"

definition form_or_build_up_mental_model :: "person_ref \<Rightarrow> person_ref \<Rightarrow> world \<Rightarrow> world" where
  "form_or_build_up_mental_model owner subject w =
     (let observation = Observation subject owner
      in case mental_models (persons w owner) subject of
           None \<Rightarrow> PersonMentalModel owner subject observation w
         | Some model \<Rightarrow> build_up owner subject model observation w)"

subsection \<open>The constructors\<close>

text \<open>
  A constructor returns the reference of the new object and the world after all its side
  effects, or the exception that ended it.
\<close>

definition Acquaintance_init ::
  "person_ref \<Rightarrow> person_ref \<Rightarrow> rel_ref option \<Rightarrow> world \<Rightarrow> py_error + (rel_ref \<times> world)" where
  "Acquaintance_init owner subject preceded_by w =
     (let self = length (objects w)
      in bind_err (case preceded_by of None \<Rightarrow> Inr w | Some p \<Rightarrow> link_predecessor p self w) (\<lambda>w1.
         let own = persons w1 owner;
             sub = persons w1 subject;
             w2 = set_relationship owner subject self w1;
             compat = init_get_compatibility own sub;
             incr = init_determine_charge_increment compat own sub
         in bind_err (init_determine_initial_spark_increment owner subject w2) (\<lambda>spark_incr.
            let w3 = allocate (Acquaintance
                       \<lparr>a_type = ''acquaintance'', a_owner = owner, a_subject = subject,
                        a_preceded_by = preceded_by, a_succeeded_by = None,
                        a_where_they_met = Some (location own),
                        a_when_they_met = Some (date (game own)),
                        a_compatibility = compat, a_charge_increment = incr, a_charge = incr,
                        a_spark_increment = spark_incr, a_spark = spark_incr\<rparr>) w2
            in Inr (self, form_or_build_up_mental_model owner subject w3))))"

definition Enmity_init ::
  "person_ref \<Rightarrow> person_ref \<Rightarrow> rel_ref option \<Rightarrow> world \<Rightarrow> py_error + (rel_ref \<times> world)" where
  "Enmity_init owner subject preceded_by w =
     (let self = length (objects w)
      in case preceded_by of
           None \<Rightarrow> Inl AttributeError
         | Some p \<Rightarrow>
             bind_err (link_predecessor p self w) (\<lambda>w1.
             bind_err (deref w1 p) (\<lambda>pre.
             let w2 = set_relationship owner subject self w1
             in bind_err (attr_charge_increment pre) (\<lambda>incr.
                bind_err (attr_charge pre) (\<lambda>c.
                Inr (self, allocate (Enmity
                       \<lparr>e_type = ''enmity'', e_owner = owner, e_subject = subject,
                        e_preceded_by = Some p, e_succeeded_by = None,
                        e_where_they_met = attr_where_they_met pre,
                        e_when_they_met = attr_when_they_met pre,
                        e_charge_increment = incr, e_charge = c\<rparr>) w2))))))"

definition Friendship_init ::
  "person_ref \<Rightarrow> person_ref \<Rightarrow> rel_ref option \<Rightarrow> world \<Rightarrow> py_error + (rel_ref \<times> world)" where
  "Friendship_init owner subject preceded_by w =
     (let self = length (objects w)
      in case preceded_by of
           None \<Rightarrow> Inl AttributeError
         | Some p \<Rightarrow>
             bind_err (link_predecessor p self w) (\<lambda>w1.
             bind_err (deref w1 p) (\<lambda>pre.
             let w2 = set_relationship owner subject self w1
             in bind_err (attr_charge_increment pre) (\<lambda>incr.
                bind_err (attr_charge pre) (\<lambda>c.
                Inr (self, allocate (Friendship
                       \<lparr>f_type = ''friendship'', f_owner = owner, f_subject = subject,
                        f_preceded_by = Some p, f_succeeded_by = None,
                        f_where_they_met = attr_where_they_met pre,
                        f_when_they_met = attr_when_they_met pre,
                        f_charge_increment = incr, f_charge = c\<rparr>) w2))))))"

definition Kinship_init ::
  "person_ref \<Rightarrow> person_ref \<Rightarrow> string \<Rightarrow> world \<Rightarrow> py_error + (rel_ref \<times> world)" where
  "Kinship_init owner subject relationship w =
     (let self = length (objects w);
          w1 = set_relationship owner subject self w
      in Inr (self, allocate (Kinship
                \<lparr>k_type = ''kinship'', k_owner = owner, k_subject = subject,
                 k_relationship = relationship, k_succeeded_by = None,
                 k_where_they_met = None, k_when_they_met = None\<rparr>) w1))"

subsection \<open>Progression\<close>

definition age_difference_effect_on_charge_increment :: "person \<Rightarrow> person \<Rightarrow> real" where
  "age_difference_effect_on_charge_increment own sub =
     function_to_determine_how_age_difference_reduces_charge_intensity (config (game own))
       (age own) (age sub)"

definition age_difference_effect_on_spark_increment :: "person \<Rightarrow> person \<Rightarrow> real" where
  "age_difference_effect_on_spark_increment own sub =
     function_to_determine_how_age_difference_reduces_charge_intensity (config (game own))
       (age own) (age sub)"

definition start_friendship_or_enmity ::
  "real \<Rightarrow> config \<Rightarrow> person_ref \<Rightarrow> person_ref \<Rightarrow> rel_ref \<Rightarrow> world \<Rightarrow> py_error + world" where
  \<comment> \<open>the \<open>if\<close>/\<open>elif\<close> on the charge, the same text in the three classes\<close>
  "start_friendship_or_enmity c cfg owner subject self w =
     (if c > charge_threshold_friendship cfg
      then bind_err (Friendship_init owner subject (Some self) w) (\<lambda>(new, w'). Inr w')
      else if c < charge_threshold_enmity cfg
      then bind_err (Enmity_init owner subject (Some self) w) (\<lambda>(new, w'). Inr w')
      else Inr w)"

definition Acquaintance_progress_relationship :: "rel_ref \<Rightarrow> acquaintance \<Rightarrow> world \<Rightarrow> py_error + world" where
  \<comment> \<open>\<open>a\<close> holds the attributes of \<open>self\<close> when the method is entered\<close>
  "Acquaintance_progress_relationship self a w =
     (let own = persons w (a_owner a);
          sub = persons w (a_subject a);
          config = config (game own);
          a1 = a\<lparr>a_charge := a_charge a +
                   a_charge_increment a * age_difference_effect_on_charge_increment own sub\<rparr>;
          w1 = store self (Acquaintance a1) w
      in bind_err (start_friendship_or_enmity (a_charge a1) config (a_owner a1) (a_subject a1) self w1) (\<lambda>w2.
         case deref w2 self of
           Inr (Acquaintance a2) \<Rightarrow>
             (let own2 = persons w2 (a_owner a2);
                  sub2 = persons w2 (a_subject a2);
                  a3 = a2\<lparr>a_spark_increment := a_spark_increment a2 * spark_decay_rate config\<rparr>;
                  a4 = a3\<lparr>a_spark := a_spark a3 +
                          a_spark_increment a3 * age_difference_effect_on_spark_increment own2 sub2\<rparr>;
                  w3 = store self (Acquaintance a4) w2
              in Inr (form_or_build_up_mental_model (a_owner a4) (a_subject a4) w3))
         | _ \<Rightarrow> Inl DanglingReference))"

definition Enmity_progress_relationship :: "rel_ref \<Rightarrow> enmity \<Rightarrow> world \<Rightarrow> py_error + world" where
  "Enmity_progress_relationship self e w =
     (let config = config (game (persons w (e_owner e)));
          e1 = e\<lparr>e_charge := e_charge e + e_charge_increment e\<rparr>;
          w1 = store self (Enmity e1) w
      in start_friendship_or_enmity (e_charge e1) config (e_owner e1) (e_subject e1) self w1)"

definition Friendship_progress_relationship :: "rel_ref \<Rightarrow> friendship \<Rightarrow> world \<Rightarrow> py_error + world" where
  "Friendship_progress_relationship self f w =
     (let config = config (game (persons w (f_owner f)));
          f1 = f\<lparr>f_charge := f_charge f + f_charge_increment f\<rparr>;
          w1 = store self (Friendship f1) w
      in start_friendship_or_enmity (f_charge f1) config (f_owner f1) (f_subject f1) self w1)"

definition progress_relationship :: "rel_ref \<Rightarrow> world \<Rightarrow> py_error + world" where
  \<comment> \<open>\<open>r.progress_relationship()\<close>: the method of the class of \<open>r\<close>; \<open>Kinship\<close> has none\<close>
  "progress_relationship self w =
     (case deref w self of
        Inl err \<Rightarrow> Inl err
      | Inr (Acquaintance a) \<Rightarrow> Acquaintance_progress_relationship self a w
      | Inr (Enmity e) \<Rightarrow> Enmity_progress_relationship self e w
      | Inr (Friendship f) \<Rightarrow> Friendship_progress_relationship self f w
      | Inr (Kinship k) \<Rightarrow> Inl AttributeError)"

definition new_acquaintance :: "person_ref \<Rightarrow> person_ref \<Rightarrow> rel_ref option \<Rightarrow> real \<Rightarrow> world \<Rightarrow> acquaintance" where
  "new_acquaintance owner subject pb spark_incr w =
     \<lparr>a_type = ''acquaintance'', a_owner = owner, a_subject = subject,
      a_preceded_by = pb, a_succeeded_by = None,
      a_where_they_met = Some (location (persons w owner)),
      a_when_they_met = Some (date (game (persons w owner))),
      a_compatibility = init_get_compatibility (persons w owner) (persons w subject),
      a_charge_increment = init_determine_charge_increment
        (init_get_compatibility (persons w owner) (persons w subject)) (persons w owner) (persons w subject),
      a_charge = init_determine_charge_increment
        (init_get_compatibility (persons w owner) (persons w subject)) (persons w owner) (persons w subject),
      a_spark_increment = spark_incr, a_spark = spark_incr\<rparr>"

definition in_trait_range :: "real \<Rightarrow> bool" where
  "in_trait_range x = (-1 \<le> x \<and> x \<le> 1)"

definition trait_difference :: "person \<Rightarrow> person \<Rightarrow> real" where
  "trait_difference own sub =
     \<bar>openness_to_experience (personality own) - openness_to_experience (personality sub)\<bar> +
     \<bar>extroversion (personality own) - extroversion (personality sub)\<bar> +
     \<bar>agreeableness (personality own) - agreeableness (personality sub)\<bar>"

definition example_config :: config where
  "example_config =
     \<lparr>owner_extroversion_boost_to_charge_multiplier = 1/2,
      subject_agreeableness_boost_to_charge_multiplier = 1/2,
      charge_intensity_reduction_due_to_sex_difference = 1/2,
      openness_boost_to_spark_multiplier = [''m'' \<mapsto> 1/4, ''f'' \<mapsto> 1/2],
      conscientiousness_boost_to_spark_multiplier = [''m'' \<mapsto> 1/4, ''f'' \<mapsto> 1/2],
      extroversion_boost_to_spark_multiplier = [''m'' \<mapsto> 1/2, ''f'' \<mapsto> 1],
      agreeableness_boost_to_spark_multiplier = [''m'' \<mapsto> 1, ''f'' \<mapsto> 1/2],
      neuroticism_boost_to_spark_multiplier = [''m'' \<mapsto> -1/2, ''f'' \<mapsto> -1],
      spark_decay_rate = 9/10,
      charge_threshold_friendship = 5,
      charge_threshold_enmity = -5,
      function_to_determine_how_age_difference_reduces_charge_intensity =
        (\<lambda>age1 age2. if age1 = age2 then 1 else 1/2)\<rparr>"

definition alice :: person where
  "alice =
     \<lparr>personality = \<lparr>openness_to_experience = 1/2, conscientiousness = 0, extroversion = 1/2,
                     agreeableness = 1/2, neuroticism = 0\<rparr>,
      male = False, female = True, attracted_to_men = True, attracted_to_women = False,
      extended_family = {}, age = 30, location = 7,
      game = \<lparr>date = 100, config = example_config\<rparr>,
      relationships = Map.empty, mental_models = Map.empty\<rparr>"

definition bob :: person where
  "bob =
     \<lparr>personality = \<lparr>openness_to_experience = -1/2, conscientiousness = 1/2, extroversion = 0,
                     agreeableness = 1/2, neuroticism = -1/2\<rparr>,
      male = True, female = False, attracted_to_men = False, attracted_to_women = True,
      extended_family = {2}, age = 40, location = 8,
      game = \<lparr>date = 100, config = example_config\<rparr>,
      relationships = Map.empty, mental_models = Map.empty\<rparr>"

definition carol :: person where
  "carol =
     \<lparr>personality = \<lparr>openness_to_experience = 1, conscientiousness = 0, extroversion = 1,
                     agreeableness = 1, neuroticism = 0\<rparr>,
      male = False, female = True, attracted_to_men = True, attracted_to_women = False,
      extended_family = {1}, age = 40, location = 8,
      game = \<lparr>date = 100, config = example_config\<rparr>,
      relationships = Map.empty, mental_models = Map.empty\<rparr>"

definition dave :: person where
  "dave =
     \<lparr>personality = \<lparr>openness_to_experience = -1, conscientiousness = 0, extroversion = -1,
                     agreeableness = -1, neuroticism = 0\<rparr>,
      male = True, female = False, attracted_to_men = False, attracted_to_women = True,
      extended_family = {}, age = 40, location = 9,
      game = \<lparr>date = 100, config = example_config\<rparr>,
      relationships = Map.empty, mental_models = Map.empty\<rparr>"

definition erin :: person where
  "erin =
     \<lparr>personality = \<lparr>openness_to_experience = 1, conscientiousness = 0, extroversion = 1,
                     agreeableness = 1, neuroticism = 0\<rparr>,
      male = False, female = True, attracted_to_men = True, attracted_to_women = False,
      extended_family = {}, age = 40, location = 8,
      game = \<lparr>date = 100, config = example_config\<rparr>,
      relationships = Map.empty, mental_models = Map.empty\<rparr>"

definition town :: world where
  "town = \<lparr>persons = (\<lambda>_. alice)(1 := bob, 2 := carol, 3 := dave, 4 := erin), objects = []\<rparr>"

subsection \<open>Sequences of calls made by the driver\<close>

datatype call =
    New_Kinship person_ref person_ref string
  | New_Acquaintance person_ref person_ref "rel_ref option"
  | New_Enmity person_ref person_ref "rel_ref option"
  | New_Friendship person_ref person_ref "rel_ref option"
  | Progress rel_ref

fun perform :: "call \<Rightarrow> world \<Rightarrow> py_error + world" where
  "perform (New_Kinship owner subject label) w =
     bind_err (Kinship_init owner subject label w) (\<lambda>(self, w'). Inr w')"
| "perform (New_Acquaintance owner subject pb) w =
     bind_err (Acquaintance_init owner subject pb w) (\<lambda>(self, w'). Inr w')"
| "perform (New_Enmity owner subject pb) w =
     bind_err (Enmity_init owner subject pb w) (\<lambda>(self, w'). Inr w')"
| "perform (New_Friendship owner subject pb) w =
     bind_err (Friendship_init owner subject pb w) (\<lambda>(self, w'). Inr w')"
| "perform (Progress r) w = progress_relationship r w"

fun perform_all :: "call list \<Rightarrow> world \<Rightarrow> py_error + world" where
  "perform_all [] w = Inr w"
| "perform_all (c # cs) w = bind_err (perform c w) (perform_all cs)"

definition successor_after :: "call list \<Rightarrow> world \<Rightarrow> rel_ref \<Rightarrow> py_error + rel_ref option" where
  \<comment> \<open>\<open>r.succeeded_by\<close> once the calls have been made\<close>
  "successor_after cs w r =
     bind_err (perform_all cs w) (\<lambda>w'. bind_err (deref w' r) (\<lambda>obj. Inr (attr_succeeded_by obj)))"

definition ledger_holds_new :: "person_ref \<Rightarrow> person_ref \<Rightarrow> rel_ref \<Rightarrow> world \<Rightarrow> world \<Rightarrow> bool" where
  \<comment> \<open>\<open>self\<close> is an object that did not exist in \<open>w\<close>, it is about the pair, and the owner's
      ledger entry for the subject is \<open>self\<close>\<close>
  "ledger_holds_new owner subject self w w' =
     (self = length (objects w) \<and> length (objects w') = Suc (length (objects w)) \<and>
      attr_owner (objects w' ! self) = owner \<and> attr_subject (objects w' ! self) = subject \<and>
      relationships (persons w' owner) subject = Some self)"

subsection \<open>Names for what the constructors build\<close>

definition new_friendship :: "person_ref \<Rightarrow> person_ref \<Rightarrow> rel_ref \<Rightarrow> relationship \<Rightarrow> real \<Rightarrow> real \<Rightarrow> friendship" where
  "new_friendship owner subject p pre incr c =
     \<lparr>f_type = ''friendship'', f_owner = owner, f_subject = subject,
      f_preceded_by = Some p, f_succeeded_by = None,
      f_where_they_met = attr_where_they_met pre, f_when_they_met = attr_when_they_met pre,
      f_charge_increment = incr, f_charge = c\<rparr>"

definition new_enmity :: "person_ref \<Rightarrow> person_ref \<Rightarrow> rel_ref \<Rightarrow> relationship \<Rightarrow> real \<Rightarrow> real \<Rightarrow> enmity" where
  "new_enmity owner subject p pre incr c =
     \<lparr>e_type = ''enmity'', e_owner = owner, e_subject = subject,
      e_preceded_by = Some p, e_succeeded_by = None,
      e_where_they_met = attr_where_they_met pre, e_when_they_met = attr_when_they_met pre,
      e_charge_increment = incr, e_charge = c\<rparr>"

definition succeed :: "rel_ref \<Rightarrow> person_ref \<Rightarrow> person_ref \<Rightarrow> relationship \<Rightarrow> world \<Rightarrow> world" where
  \<comment> \<open>the world once \<open>new\<close> has been constructed as the successor of \<open>p\<close>\<close>
  "succeed p owner subject new w =
     allocate new (set_relationship owner subject (length (objects w))
       (store p (set_succeeded_by (Some (length (objects w))) (objects w ! p)) w))"

definition constructed :: "world \<Rightarrow> world \<Rightarrow> relationship list" where
  \<comment> \<open>the objects of \<open>w'\<close> that did not exist in \<open>w\<close>\<close>
  "constructed w w' = drop (length (objects w)) (objects w')"

subsection \<open>The charge after one progression\<close>

definition charge_after_progress :: "rel_ref \<Rightarrow> world \<Rightarrow> py_error + real" where
  \<comment> \<open>\<open>r.charge\<close> once \<open>r.progress_relationship()\<close> has returned\<close>
  "charge_after_progress self w =
     bind_err (progress_relationship self w) (\<lambda>w'. bind_err (deref w' self) attr_charge)"

definition spec_charge_after_progress :: "rel_ref \<Rightarrow> world \<Rightarrow> py_error + real" where
  \<comment> \<open>the specification's step for every class: charge plus charge_increment times the
      age-difference effect\<close>
  "spec_charge_after_progress self w =
     bind_err (deref w self) (\<lambda>obj.
     bind_err (attr_charge obj) (\<lambda>c.
     bind_err (attr_charge_increment obj) (\<lambda>incr.
     Inr (c + incr * age_difference_effect_on_charge_increment
                       (persons w (attr_owner obj)) (persons w (attr_subject obj))))))"

subsection \<open>Example records at charge 4\<close>

definition acquaintance_at_four :: "person_ref \<Rightarrow> person_ref \<Rightarrow> real \<Rightarrow> world" where
  \<comment> \<open>the town with one acquaintance of the given pair, its charge 4 and its increment as given\<close>
  "acquaintance_at_four owner subject incr =
     town\<lparr>objects :=
       [Acquaintance
          \<lparr>a_type = ''acquaintance'', a_owner = owner, a_subject = subject,
           a_preceded_by = None, a_succeeded_by = None,
           a_where_they_met = Some 8, a_when_they_met = Some 100,
           a_compatibility = 1, a_charge_increment = incr, a_charge = 4,
           a_spark_increment = 1, a_spark = 2\<rparr>]\<rparr>"

definition friendship_at_four :: "real \<Rightarrow> world" where
  \<comment> \<open>alice's acquaintance with bob, succeeded by a friendship at charge 4\<close>
  "friendship_at_four incr =
     town\<lparr>objects :=
       [Acquaintance
          \<lparr>a_type = ''acquaintance'', a_owner = 0, a_subject = 1,
           a_preceded_by = None, a_succeeded_by = Some 1,
           a_where_they_met = Some 7, a_when_they_met = Some 100,
           a_compatibility = 1/2, a_charge_increment = incr, a_charge = 4,
           a_spark_increment = 1, a_spark = 2\<rparr>,
        Friendship
          \<lparr>f_type = ''friendship'', f_owner = 0, f_subject = 1,
           f_preceded_by = Some 0, f_succeeded_by = None,
           f_where_they_met = Some 7, f_when_they_met = Some 100,
           f_charge_increment = incr, f_charge = 4\<rparr>]\<rparr>"

definition enmity_at_four :: "real \<Rightarrow> world" where
  \<comment> \<open>alice's acquaintance with bob, succeeded by an enmity at charge 4\<close>
  "enmity_at_four incr =
     town\<lparr>objects :=
       [Acquaintance
          \<lparr>a_type = ''acquaintance'', a_owner = 0, a_subject = 1,
           a_preceded_by = None, a_succeeded_by = Some 1,
           a_where_they_met = Some 7, a_when_they_met = Some 100,
           a_compatibility = 1/2, a_charge_increment = incr, a_charge = 4,
           a_spark_increment = 1, a_spark = 2\<rparr>,
        Enmity
          \<lparr>e_type = ''enmity'', e_owner = 0, e_subject = 1,
           e_preceded_by = Some 0, e_succeeded_by = None,
           e_where_they_met = Some 7, e_when_they_met = Some 100,
           e_charge_increment = incr, e_charge = 4\<rparr>]\<rparr>"

subsection \<open>The chain of records\<close>

definition links :: "world \<Rightarrow> (rel_ref option \<times> (py_error + rel_ref option)) list" where
  \<comment> \<open>\<open>succeeded_by\<close> and \<open>preceded_by\<close> of every object\<close>
  "links w = map (\<lambda>obj. (attr_succeeded_by obj, attr_preceded_by obj)) (objects w)"

definition chain_integrity :: "world \<Rightarrow> bool" where
  \<comment> \<open>every \<open>R.succeeded_by = S\<close> is matched by \<open>S.preceded_by = R\<close>\<close>
  "chain_integrity w =
     (\<forall>r < length (objects w).
        case attr_succeeded_by (objects w ! r) of
          None \<Rightarrow> True
        | Some s \<Rightarrow> s < length (objects w) \<and> attr_preceded_by (objects w ! s) = Inr (Some r))"

definition successors_kept :: "world \<Rightarrow> world \<Rightarrow> bool" where
  \<comment> \<open>every record that has a successor in \<open>w\<close> has the same successor in \<open>w'\<close>\<close>
  "successors_kept w w' =
     (\<forall>r < length (objects w).
        case attr_succeeded_by (objects w ! r) of
          None \<Rightarrow> True
        | Some s \<Rightarrow> r < length (objects w') \<and> attr_succeeded_by (objects w' ! r) = Some s)"

fun target :: "call \<Rightarrow> rel_ref option" where
  \<comment> \<open>the record a call may give a successor to\<close>
  "target (New_Kinship owner subject label) = None"
| "target (New_Acquaintance owner subject pb) = pb"
| "target (New_Enmity owner subject pb) = pb"
| "target (New_Friendship owner subject pb) = pb"
| "target (Progress r) = Some r"

definition target_active :: "call \<Rightarrow> world \<Rightarrow> bool" where
  \<comment> \<open>the target of the call, if any, has no successor yet\<close>
  "target_active c w =
     (case target c of
        None \<Rightarrow> True
      | Some r \<Rightarrow> (case deref w r of Inl err \<Rightarrow> True | Inr obj \<Rightarrow> attr_succeeded_by obj = None))"

fun targets_active :: "call list \<Rightarrow> world \<Rightarrow> bool" where
  \<comment> \<open>each call of the sequence, when its turn comes, has an active target\<close>
  "targets_active [] w = True"
| "targets_active (c # cs) w =
     (target_active c w \<and>
      (case perform c w of Inl err \<Rightarrow> True | Inr w' \<Rightarrow> targets_active cs w'))"

text \<open>The same properties read off the list of links; used in the proofs.\<close>

definition chain_ok :: "(rel_ref option \<times> (py_error + rel_ref option)) list \<Rightarrow> bool" where
  "chain_ok l =
     (\<forall>r < length l. \<forall>s. fst (l ! r) = Some s \<longrightarrow> s < length l \<and> snd (l ! s) = Inr (Some r))"

definition kept :: "(rel_ref option \<times> (py_error + rel_ref option)) list \<Rightarrow>
    (rel_ref option \<times> (py_error + rel_ref option)) list \<Rightarrow> bool" where
  "kept l l' = (\<forall>r < length l. \<forall>s. fst (l ! r) = Some s \<longrightarrow> r < length l' \<and> fst (l' ! r) = Some s)"

definition linked :: "rel_ref \<Rightarrow> world \<Rightarrow> world \<Rightarrow> bool" where
  "linked p w w' \<longleftrightarrow>
     p < length (objects w) \<and>
     links w' = (links w)[p := (Some (length (objects w)), snd (links w ! p))] @ [(None, Inr (Some p))]"

lemma bind_err_simps [simp]:
  "bind_err (Inl e) f = Inl e"
  "bind_err (Inr x) f = f x"
  by (simp_all add: bind_err_def)

lemma bind_err_eq_Inr: "bind_err m f = Inr y \<longleftrightarrow> (\<exists>x. m = Inr x \<and> f x = Inr y)"
  by (cases m) simp_all

lemma objects_store [simp]: "objects (store r obj w) = (objects w)[r := obj]"
  and persons_store [simp]: "persons (store r obj w) = persons w"
  by (simp_all add: store_def)

lemma objects_allocate [simp]: "objects (allocate obj w) = objects w @ [obj]"
  and persons_allocate [simp]: "persons (allocate obj w) = persons w"
  by (simp_all add: allocate_def)

lemma objects_set_relationship [simp]: "objects (set_relationship owner subject self w) = objects w"
  by (simp add: set_relationship_def)

lemma ledger_set_relationship [simp]:
  "relationships (persons (set_relationship owner subject self w) owner) subject = Some self"
  by (simp add: set_relationship_def)

lemma person_set_relationship:
  "persons (set_relationship owner subject self w) p =
     (if p = owner
      then (persons w owner)\<lparr>relationships := (relationships (persons w owner))(subject \<mapsto> self)\<rparr>
      else persons w p)"
  by (simp add: set_relationship_def)

lemma objects_form_or_build_up [simp]:
  "objects (form_or_build_up_mental_model owner subject w) = objects w"
  by (simp add: form_or_build_up_mental_model_def PersonMentalModel_def build_up_def Let_def
      split: option.split)

lemma person_form_or_build_up:
  "persons (form_or_build_up_mental_model owner subject w) p =
     (if p = owner
      then (persons w owner)\<lparr>mental_models := (mental_models (persons w owner))
             (subject \<mapsto> (case mental_models (persons w owner) subject of None \<Rightarrow> [] | Some m \<Rightarrow> m)
                @ [Observation subject owner])\<rparr>
      else persons w p)"
  by (simp add: form_or_build_up_mental_model_def PersonMentalModel_def build_up_def
      split: option.split)

lemma deref_eq_Inr: "deref w r = Inr obj \<longleftrightarrow> r < length (objects w) \<and> objects w ! r = obj"
  by (auto simp: deref_def)

lemma link_predecessor_eq_Inr:
  "link_predecessor p self w = Inr w' \<longleftrightarrow>
     p < length (objects w) \<and> w' = store p (set_succeeded_by (Some self) (objects w ! p)) w"
  by (auto simp: link_predecessor_def deref_def)

lemma attr_set_succeeded_by [simp]:
  "attr_succeeded_by (set_succeeded_by s obj) = s"
  "attr_preceded_by (set_succeeded_by s obj) = attr_preceded_by obj"
  "attr_charge (set_succeeded_by s obj) = attr_charge obj"
  "attr_charge_increment (set_succeeded_by s obj) = attr_charge_increment obj"
  "attr_where_they_met (set_succeeded_by s obj) = attr_where_they_met obj"
  "attr_when_they_met (set_succeeded_by s obj) = attr_when_they_met obj"
  "attr_owner (set_succeeded_by s obj) = attr_owner obj"
  "attr_subject (set_succeeded_by s obj) = attr_subject obj"
  by (cases obj; simp)+

lemma Friendship_init_eq_Inr:
  "Friendship_init owner subject pb w = Inr (self, w') \<longleftrightarrow>
     (\<exists>p incr c. pb = Some p \<and> p < length (objects w) \<and> self = length (objects w) \<and>
        attr_charge_increment (objects w ! p) = Inr incr \<and> attr_charge (objects w ! p) = Inr c \<and>
        w' = allocate (Friendship
               \<lparr>f_type = ''friendship'', f_owner = owner, f_subject = subject,
                f_preceded_by = Some p, f_succeeded_by = None,
                f_where_they_met = attr_where_they_met (objects w ! p),
                f_when_they_met = attr_when_they_met (objects w ! p),
                f_charge_increment = incr, f_charge = c\<rparr>)
              (set_relationship owner subject self
                (store p (set_succeeded_by (Some self) (objects w ! p)) w)))"
  unfolding Friendship_init_def Let_def
  by (cases pb) (auto simp: bind_err_eq_Inr link_predecessor_eq_Inr deref_eq_Inr)

lemma Enmity_init_eq_Inr:
  "Enmity_init owner subject pb w = Inr (self, w') \<longleftrightarrow>
     (\<exists>p incr c. pb = Some p \<and> p < length (objects w) \<and> self = length (objects w) \<and>
        attr_charge_increment (objects w ! p) = Inr incr \<and> attr_charge (objects w ! p) = Inr c \<and>
        w' = allocate (Enmity
               \<lparr>e_type = ''enmity'', e_owner = owner, e_subject = subject,
                e_preceded_by = Some p, e_succeeded_by = None,
                e_where_they_met = attr_where_they_met (objects w ! p),
                e_when_they_met = attr_when_they_met (objects w ! p),
                e_charge_increment = incr, e_charge = c\<rparr>)
              (set_relationship owner subject self
                (store p (set_succeeded_by (Some self) (objects w ! p)) w)))"
  unfolding Enmity_init_def Let_def
  by (cases pb) (auto simp: bind_err_eq_Inr link_predecessor_eq_Inr deref_eq_Inr)


lemma affect_own_set_relationships [simp]:
  "affect_initial_spark_increment_by_own_personality (own\<lparr>relationships := l\<rparr>) sub =
     affect_initial_spark_increment_by_own_personality own sub"
  "affect_initial_spark_increment_by_own_personality own (sub\<lparr>relationships := l\<rparr>) =
     affect_initial_spark_increment_by_own_personality own sub"
  by (simp_all add: affect_initial_spark_increment_by_own_personality_def)

lemma affect_acquaintance_set_relationships [simp]:
  "affect_initial_spark_increment_by_acquaintance_personality (own\<lparr>relationships := l\<rparr>) sub =
     affect_initial_spark_increment_by_acquaintance_personality own sub"
  "affect_initial_spark_increment_by_acquaintance_personality own (sub\<lparr>relationships := l\<rparr>) =
     affect_initial_spark_increment_by_acquaintance_personality own sub"
  by (simp_all add: affect_initial_spark_increment_by_acquaintance_personality_def)

lemma spark_increment_set_relationship [simp]:
  "init_determine_initial_spark_increment owner subject (set_relationship p q r w) =
     init_determine_initial_spark_increment owner subject w"
  by (cases "owner = p"; cases "subject = p")
    (simp_all add: init_determine_initial_spark_increment_def person_set_relationship Let_def)

lemma spark_increment_store [simp]:
  "init_determine_initial_spark_increment owner subject (store r obj w) =
     init_determine_initial_spark_increment owner subject w"
  by (simp add: init_determine_initial_spark_increment_def)

lemma Acquaintance_init_eq_Inr:
  "Acquaintance_init owner subject pb w = Inr (self, w') \<longleftrightarrow>
     (\<exists>w1 spark_incr.
        (case pb of None \<Rightarrow> w1 = w
         | Some p \<Rightarrow> p < length (objects w) \<and>
             w1 = store p (set_succeeded_by (Some self) (objects w ! p)) w) \<and>
        self = length (objects w) \<and>
        init_determine_initial_spark_increment owner subject w = Inr spark_incr \<and>
        w' = form_or_build_up_mental_model owner subject
               (allocate (Acquaintance (new_acquaintance owner subject pb spark_incr w))
                 (set_relationship owner subject self w1)))"
  unfolding Acquaintance_init_def Let_def new_acquaintance_def
  by (cases pb) (auto simp: bind_err_eq_Inr link_predecessor_eq_Inr)

lemma Acquaintance_init_deref:
  assumes "Acquaintance_init owner subject pb w = Inr (self, w')"
  shows "\<exists>spark_incr. init_determine_initial_spark_increment owner subject w = Inr spark_incr \<and>
           self = length (objects w) \<and> length (objects w') = Suc (length (objects w)) \<and>
           deref w' self = Inr (Acquaintance (new_acquaintance owner subject pb spark_incr w))"
  using assms unfolding Acquaintance_init_eq_Inr
  by (cases pb) (auto simp: deref_eq_Inr nth_append)

lemma Acquaintance_init_total:
  assumes "init_determine_initial_spark_increment owner subject w = Inr spark_incr"
    and "case pb of None \<Rightarrow> True | Some p \<Rightarrow> p < length (objects w)"
  shows "\<exists>w'. Acquaintance_init owner subject pb w = Inr (length (objects w), w')"
  using assms unfolding Acquaintance_init_eq_Inr by (cases pb) auto

text \<open>Unfolding everything evaluates the model on the example town.\<close>

lemmas example_defs = town_def alice_def bob_def carol_def dave_def erin_def example_config_def

lemmas model_defs =
  Acquaintance_init_def Enmity_init_def Friendship_init_def Kinship_init_def
  progress_relationship_def Acquaintance_progress_relationship_def
  Enmity_progress_relationship_def Friendship_progress_relationship_def
  start_friendship_or_enmity_def deref_def store_def allocate_def set_relationship_def
  link_predecessor_def init_get_compatibility_def init_determine_charge_increment_def
  init_determine_initial_spark_increment_def
  affect_initial_spark_increment_by_own_personality_def
  affect_initial_spark_increment_by_acquaintance_personality_def
  getitem_def form_or_build_up_mental_model_def PersonMentalModel_def build_up_def
  age_difference_effect_on_charge_increment_def age_difference_effect_on_spark_increment_def
  Let_def

lemma objects_succeed:
  "objects (succeed p owner subject new w) =
     (objects w)[p := set_succeeded_by (Some (length (objects w))) (objects w ! p)] @ [new]"
  by (simp add: succeed_def)

lemma persons_succeed:
  "persons (succeed p owner subject new w) x =
     (if x = owner
      then (persons w owner)\<lparr>relationships :=
             (relationships (persons w owner))(subject \<mapsto> length (objects w))\<rparr>
      else persons w x)"
  by (simp add: succeed_def person_set_relationship)

lemma Friendship_init_Some:
  assumes "p < length (objects w)"
    and "attr_charge_increment (objects w ! p) = Inr incr"
    and "attr_charge (objects w ! p) = Inr c"
  shows "Friendship_init owner subject (Some p) w =
           Inr (length (objects w),
                succeed p owner subject (Friendship (new_friendship owner subject p (objects w ! p) incr c)) w)"
  using assms unfolding Friendship_init_eq_Inr succeed_def new_friendship_def by simp

lemma Enmity_init_Some:
  assumes "p < length (objects w)"
    and "attr_charge_increment (objects w ! p) = Inr incr"
    and "attr_charge (objects w ! p) = Inr c"
  shows "Enmity_init owner subject (Some p) w =
           Inr (length (objects w),
                succeed p owner subject (Enmity (new_enmity owner subject p (objects w ! p) incr c)) w)"
  using assms unfolding Enmity_init_eq_Inr succeed_def new_enmity_def by simp

lemma start_friendship_or_enmity_result:
  assumes "p < length (objects w)"
    and "attr_charge_increment (objects w ! p) = Inr incr"
    and "attr_charge (objects w ! p) = Inr c"
  shows "start_friendship_or_enmity x cfg owner subject p w =
           Inr (if x > charge_threshold_friendship cfg
                then succeed p owner subject
                       (Friendship (new_friendship owner subject p (objects w ! p) incr c)) w
                else if x < charge_threshold_enmity cfg
                then succeed p owner subject
                       (Enmity (new_enmity owner subject p (objects w ! p) incr c)) w
                else w)"
  unfolding start_friendship_or_enmity_def
  by (simp add: Friendship_init_Some [OF assms] Enmity_init_Some [OF assms])

lemma Friendship_progress_result:
  assumes "deref w self = Inr (Friendship f)"
  shows "progress_relationship self w =
     (let c' = f_charge f + f_charge_increment f;
          cfg = config (game (persons w (f_owner f)));
          f1 = Friendship (f\<lparr>f_charge := c'\<rparr>);
          w1 = store self f1 w
      in Inr (if c' > charge_threshold_friendship cfg
              then succeed self (f_owner f) (f_subject f)
                     (Friendship (new_friendship (f_owner f) (f_subject f) self f1 (f_charge_increment f) c')) w1
              else if c' < charge_threshold_enmity cfg
              then succeed self (f_owner f) (f_subject f)
                     (Enmity (new_enmity (f_owner f) (f_subject f) self f1 (f_charge_increment f) c')) w1
              else w1))"
proof -
  from assms have self: "self < length (objects w)" and obj: "objects w ! self = Friendship f"
    by (simp_all add: deref_eq_Inr)
  let ?f1 = "Friendship (f\<lparr>f_charge := f_charge f + f_charge_increment f\<rparr>)"
  let ?w1 = "store self ?f1 w"
  have 1: "self < length (objects ?w1)" using self by simp
  have 2: "objects ?w1 ! self = ?f1" using self by simp
  have 3: "attr_charge_increment (objects ?w1 ! self) = Inr (f_charge_increment f)"
    and 4: "attr_charge (objects ?w1 ! self) = Inr (f_charge f + f_charge_increment f)"
    unfolding 2 by simp_all
  show ?thesis
    unfolding progress_relationship_def assms Friendship_progress_relationship_def Let_def
    by (simp add: start_friendship_or_enmity_result [OF 1 3 4] self)
qed

lemma Enmity_progress_result:
  assumes "deref w self = Inr (Enmity e)"
  shows "progress_relationship self w =
     (let c' = e_charge e + e_charge_increment e;
          cfg = config (game (persons w (e_owner e)));
          e1 = Enmity (e\<lparr>e_charge := c'\<rparr>);
          w1 = store self e1 w
      in Inr (if c' > charge_threshold_friendship cfg
              then succeed self (e_owner e) (e_subject e)
                     (Friendship (new_friendship (e_owner e) (e_subject e) self e1 (e_charge_increment e) c')) w1
              else if c' < charge_threshold_enmity cfg
              then succeed self (e_owner e) (e_subject e)
                     (Enmity (new_enmity (e_owner e) (e_subject e) self e1 (e_charge_increment e) c')) w1
              else w1))"
proof -
  from assms have self: "self < length (objects w)" and obj: "objects w ! self = Enmity e"
    by (simp_all add: deref_eq_Inr)
  let ?e1 = "Enmity (e\<lparr>e_charge := e_charge e + e_charge_increment e\<rparr>)"
  let ?w1 = "store self ?e1 w"
  have 1: "self < length (objects ?w1)" using self by simp
  have 2: "objects ?w1 ! self = ?e1" using self by simp
  have 3: "attr_charge_increment (objects ?w1 ! self) = Inr (e_charge_increment e)"
    and 4: "attr_charge (objects ?w1 ! self) = Inr (e_charge e + e_charge_increment e)"
    unfolding 2 by simp_all
  show ?thesis
    unfolding progress_relationship_def assms Enmity_progress_relationship_def Let_def
    by (simp add: start_friendship_or_enmity_result [OF 1 3 4] self)
qed

lemma age_effect_persons_succeed [simp]:
  "age_difference_effect_on_spark_increment
     (persons (succeed p owner subject new w) x) (persons (succeed p owner subject new w) y) =
   age_difference_effect_on_spark_increment (persons w x) (persons w y)"
  by (simp add: age_difference_effect_on_spark_increment_def persons_succeed)

lemma Acquaintance_progress_result:
  assumes "deref w self = Inr (Acquaintance a)"
  shows "progress_relationship self w =
     (let own = persons w (a_owner a);
          sub = persons w (a_subject a);
          cfg = config (game own);
          c' = a_charge a + a_charge_increment a * age_difference_effect_on_charge_increment own sub;
          a1 = a\<lparr>a_charge := c'\<rparr>;
          w1 = store self (Acquaintance a1) w;
          w2 = (if c' > charge_threshold_friendship cfg
                then succeed self (a_owner a) (a_subject a)
                       (Friendship (new_friendship (a_owner a) (a_subject a) self (Acquaintance a1)
                          (a_charge_increment a) c')) w1
                else if c' < charge_threshold_enmity cfg
                then succeed self (a_owner a) (a_subject a)
                       (Enmity (new_enmity (a_owner a) (a_subject a) self (Acquaintance a1)
                          (a_charge_increment a) c')) w1
                else w1);
          a2 = (if c' > charge_threshold_friendship cfg \<or> c' < charge_threshold_enmity cfg
                then a1\<lparr>a_succeeded_by := Some (length (objects w))\<rparr> else a1);
          a4 = a2\<lparr>a_spark_increment := a_spark_increment a * spark_decay_rate cfg,
                   a_spark := a_spark a + a_spark_increment a * spark_decay_rate cfg *
                     age_difference_effect_on_spark_increment own sub\<rparr>
      in Inr (form_or_build_up_mental_model (a_owner a) (a_subject a)
                (store self (Acquaintance a4) w2)))"
proof -
  from assms have self: "self < length (objects w)" and obj: "objects w ! self = Acquaintance a"
    by (simp_all add: deref_eq_Inr)
  let ?c' = "a_charge a + a_charge_increment a *
    age_difference_effect_on_charge_increment (persons w (a_owner a)) (persons w (a_subject a))"
  let ?cfg = "config (game (persons w (a_owner a)))"
  let ?a1 = "a\<lparr>a_charge := ?c'\<rparr>"
  let ?w1 = "store self (Acquaintance ?a1) w"
  have 1: "self < length (objects ?w1)" using self by simp
  have 2: "objects ?w1 ! self = Acquaintance ?a1" using self by simp
  have 3: "attr_charge_increment (objects ?w1 ! self) = Inr (a_charge_increment a)"
    and 4: "attr_charge (objects ?w1 ! self) = Inr ?c'"
    unfolding 2 by simp_all
  note sfe = start_friendship_or_enmity_result [OF 1 3 4, of ?c' ?cfg "a_owner a" "a_subject a"]
  consider (friend) "?c' > charge_threshold_friendship ?cfg"
    | (enemy) "\<not> ?c' > charge_threshold_friendship ?cfg" "?c' < charge_threshold_enmity ?cfg"
    | (stay) "\<not> ?c' > charge_threshold_friendship ?cfg" "\<not> ?c' < charge_threshold_enmity ?cfg"
    by blast
  then show ?thesis
  proof cases
    case friend
    then show ?thesis
      using self
      unfolding progress_relationship_def assms Acquaintance_progress_relationship_def Let_def
      by (simp add: sfe deref_def objects_succeed nth_append)
  next
    case enemy
    then show ?thesis
      using self
      unfolding progress_relationship_def assms Acquaintance_progress_relationship_def Let_def
      by (simp add: sfe deref_def objects_succeed nth_append)
  next
    case stay
    then show ?thesis
      unfolding progress_relationship_def assms Acquaintance_progress_relationship_def Let_def
      by (simp add: sfe self deref_def)
  qed
qed

lemma deref_succeed_self:
  "p < length (objects w) \<Longrightarrow>
     deref (succeed p owner subject new w) p =
       Inr (set_succeeded_by (Some (length (objects w))) (objects w ! p))"
  by (simp add: deref_def objects_succeed nth_append)

lemma deref_store_self: "p < length (objects w) \<Longrightarrow> deref (store p obj w) p = Inr obj"
  by (simp add: deref_def)

lemma deref_form_or_build_up [simp]:
  "deref (form_or_build_up_mental_model owner subject w) r = deref w r"
  by (simp add: deref_def)

lemma constructed_succeed:
  "length (objects w1) = length (objects w) \<Longrightarrow>
     constructed w (succeed p owner subject new w1) = [new]"
  by (simp add: constructed_def objects_succeed)

lemma constructed_same:
  "length (objects w1) = length (objects w) \<Longrightarrow> constructed w w1 = []"
  by (simp add: constructed_def)

lemma charge_after_progress_cases:
  "(deref w self = Inr (Acquaintance a) \<longrightarrow>
      charge_after_progress self w =
        Inr (a_charge a + a_charge_increment a *
               age_difference_effect_on_charge_increment
                 (persons w (a_owner a)) (persons w (a_subject a)))) \<and>
   (deref w self = Inr (Enmity e) \<longrightarrow>
      charge_after_progress self w = Inr (e_charge e + e_charge_increment e)) \<and>
   (deref w self = Inr (Friendship f) \<longrightarrow>
      charge_after_progress self w = Inr (f_charge f + f_charge_increment f))"
proof (intro conjI impI)
  assume d: "deref w self = Inr (Acquaintance a)"
  then have self: "self < length (objects w)" by (simp add: deref_eq_Inr)
  show "charge_after_progress self w =
        Inr (a_charge a + a_charge_increment a *
               age_difference_effect_on_charge_increment
                 (persons w (a_owner a)) (persons w (a_subject a)))"
    unfolding charge_after_progress_def Acquaintance_progress_result [OF d] Let_def
    using self by (simp add: deref_def objects_succeed nth_append)
next
  assume d: "deref w self = Inr (Enmity e)"
  then have self: "self < length (objects w)" by (simp add: deref_eq_Inr)
  show "charge_after_progress self w = Inr (e_charge e + e_charge_increment e)"
    unfolding charge_after_progress_def Enmity_progress_result [OF d] Let_def
    using self by (simp add: deref_def objects_succeed nth_append)
next
  assume d: "deref w self = Inr (Friendship f)"
  then have self: "self < length (objects w)" by (simp add: deref_eq_Inr)
  show "charge_after_progress self w = Inr (f_charge f + f_charge_increment f)"
    unfolding charge_after_progress_def Friendship_progress_result [OF d] Let_def
    using self by (simp add: deref_def objects_succeed nth_append)
qed

lemma progress_outcome:
  assumes d: "deref w self = Inr obj" and i: "attr_charge_increment obj = Inr incr"
  shows "\<exists>w' c'. progress_relationship self w = Inr w' \<and>
           charge_after_progress self w = Inr c' \<and>
           constructed w w' =
             (if c' > charge_threshold_friendship (config (game (persons w (attr_owner obj))))
              then [Friendship (new_friendship (attr_owner obj) (attr_subject obj) self obj incr c')]
              else if c' < charge_threshold_enmity (config (game (persons w (attr_owner obj))))
              then [Enmity (new_enmity (attr_owner obj) (attr_subject obj) self obj incr c')]
              else [])"
proof (cases obj)
  case (Acquaintance a)
  note c = charge_after_progress_cases [of w self a, THEN conjunct1, rule_format, OF d [unfolded Acquaintance]]
  from d have self: "self < length (objects w)" by (simp add: deref_eq_Inr)
  show ?thesis
    unfolding c Acquaintance_progress_result [OF d [unfolded Acquaintance]] Let_def
    using i Acquaintance self
    by (simp add: constructed_def objects_succeed new_friendship_def new_enmity_def
        list_update_append)
next
  case (Enmity e)
  note c = charge_after_progress_cases [of w self _ e, THEN conjunct2, THEN conjunct1, rule_format,
      OF d [unfolded Enmity]]
  show ?thesis
    unfolding c Enmity_progress_result [OF d [unfolded Enmity]] Let_def
    using i Enmity
    by (simp add: constructed_def objects_succeed new_friendship_def new_enmity_def)
next
  case (Friendship f)
  note c = charge_after_progress_cases [of w self _ _ f, THEN conjunct2, THEN conjunct2, rule_format,
      OF d [unfolded Friendship]]
  show ?thesis
    unfolding c Friendship_progress_result [OF d [unfolded Friendship]] Let_def
    using i Friendship
    by (simp add: constructed_def objects_succeed new_friendship_def new_enmity_def)
next
  case (Kinship k)
  with i show ?thesis by simp
qed

lemma length_links [simp]: "length (links w) = length (objects w)"
  by (simp add: links_def)

lemma links_nth: "r < length (objects w) \<Longrightarrow>
    links w ! r = (attr_succeeded_by (objects w ! r), attr_preceded_by (objects w ! r))"
  by (simp add: links_def)

lemma links_store:
  assumes "r < length (objects w)"
    and "attr_succeeded_by obj = attr_succeeded_by (objects w ! r)"
    and "attr_preceded_by obj = attr_preceded_by (objects w ! r)"
  shows "links (store r obj w) = links w"
  using assms by (simp add: links_def map_update list_update_same_conv)

lemma links_form_or_build_up [simp]:
  "links (form_or_build_up_mental_model owner subject w) = links w"
  by (simp add: links_def)

lemma links_set_relationship [simp]: "links (set_relationship owner subject self w) = links w"
  by (simp add: links_def)

lemma links_allocate [simp]:
  "links (allocate obj w) = links w @ [(attr_succeeded_by obj, attr_preceded_by obj)]"
  by (simp add: links_def)

lemma links_link:
  "p < length (objects w) \<Longrightarrow>
     links (store p (set_succeeded_by (Some n) (objects w ! p)) w) =
       (links w)[p := (Some n, snd (links w ! p))]"
  by (simp add: links_def map_update)

lemma links_succeed:
  "p < length (objects w) \<Longrightarrow>
     links (succeed p owner subject new w) =
       (links w)[p := (Some (length (objects w)), snd (links w ! p))] @
       [(attr_succeeded_by new, attr_preceded_by new)]"
  by (simp add: succeed_def links_link)

lemma chain_integrity_links: "chain_integrity w \<longleftrightarrow> chain_ok (links w)"
proof
  assume ci: "chain_integrity w"
  show "chain_ok (links w)"
    unfolding chain_ok_def
  proof (intro allI impI)
    fix r s
    assume "r < length (links w)" and "fst (links w ! r) = Some s"
    then have r: "r < length (objects w)" and "attr_succeeded_by (objects w ! r) = Some s"
      by (simp_all add: links_nth)
    with ci have "s < length (objects w) \<and> attr_preceded_by (objects w ! s) = Inr (Some r)"
      unfolding chain_integrity_def by (auto split: option.splits)
    then show "s < length (links w) \<and> snd (links w ! s) = Inr (Some r)"
      by (simp add: links_nth)
  qed
next
  assume co: "chain_ok (links w)"
  show "chain_integrity w"
    unfolding chain_integrity_def
  proof (intro allI impI)
    fix r
    assume r: "r < length (objects w)"
    show "case attr_succeeded_by (objects w ! r) of
            None \<Rightarrow> True
          | Some s \<Rightarrow> s < length (objects w) \<and> attr_preceded_by (objects w ! s) = Inr (Some r)"
    proof (cases "attr_succeeded_by (objects w ! r)")
      case None
      then show ?thesis by simp
    next
      case (Some s)
      with r have "fst (links w ! r) = Some s" by (simp add: links_nth)
      with co r have "s < length (links w) \<and> snd (links w ! s) = Inr (Some r)"
        unfolding chain_ok_def by simp
      with Some show ?thesis by (auto simp: links_nth)
    qed
  qed
qed

lemma successors_kept_links: "successors_kept w w' \<longleftrightarrow> kept (links w) (links w')"
proof
  assume sk: "successors_kept w w'"
  show "kept (links w) (links w')"
    unfolding kept_def
  proof (intro allI impI)
    fix r s
    assume "r < length (links w)" and "fst (links w ! r) = Some s"
    then have r: "r < length (objects w)" and "attr_succeeded_by (objects w ! r) = Some s"
      by (simp_all add: links_nth)
    with sk have "r < length (objects w') \<and> attr_succeeded_by (objects w' ! r) = Some s"
      unfolding successors_kept_def by (auto split: option.splits)
    then show "r < length (links w') \<and> fst (links w' ! r) = Some s"
      by (simp add: links_nth)
  qed
next
  assume k: "kept (links w) (links w')"
  show "successors_kept w w'"
    unfolding successors_kept_def
  proof (intro allI impI)
    fix r
    assume r: "r < length (objects w)"
    show "case attr_succeeded_by (objects w ! r) of
            None \<Rightarrow> True
          | Some s \<Rightarrow> r < length (objects w') \<and> attr_succeeded_by (objects w' ! r) = Some s"
    proof (cases "attr_succeeded_by (objects w ! r)")
      case None
      then show ?thesis by simp
    next
      case (Some s)
      with r have "fst (links w ! r) = Some s" by (simp add: links_nth)
      with k r have "r < length (links w') \<and> fst (links w' ! r) = Some s"
        unfolding kept_def by simp
      with Some show ?thesis by (auto simp: links_nth)
    qed
  qed
qed

lemma chain_ok_append:
  assumes "chain_ok l"
  shows "chain_ok (l @ [(None, x)])"
  using assms unfolding chain_ok_def
  by (auto simp: nth_append less_Suc_eq)

lemma chain_ok_link:
  assumes "chain_ok l" and "p < length l"
  shows "chain_ok (l[p := (Some (length l), snd (l ! p))] @ [(None, Inr (Some p))])"
  unfolding chain_ok_def
proof (intro allI impI)
  fix r s
  let ?l' = "l[p := (Some (length l), snd (l ! p))] @ [(None, Inr (Some p))]"
  assume r: "r < length ?l'" and s: "fst (?l' ! r) = Some s"
  show "s < length ?l' \<and> snd (?l' ! s) = Inr (Some r)"
  proof (cases "r = length l")
    case True
    with s show ?thesis by (simp add: nth_append)
  next
    case False
    with r have rl: "r < length l" by simp
    show ?thesis
    proof (cases "r = p")
      case True
      with s rl have "s = length l" by (simp add: nth_append)
      with True show ?thesis by (simp add: nth_append)
    next
      case False
      with s rl have "fst (l ! r) = Some s" by (simp add: nth_append)
      with assms(1) rl have sl: "s < length l" and sp: "snd (l ! s) = Inr (Some r)"
        unfolding chain_ok_def by blast+
      then show ?thesis
        by (cases "s = p") (simp_all add: nth_append)
    qed
  qed
qed

lemma kept_refl: "kept l l"
  by (simp add: kept_def)

lemma kept_trans: "kept l l' \<Longrightarrow> kept l' l'' \<Longrightarrow> kept l l''"
  unfolding kept_def by blast

lemma kept_append: "kept l (l @ [x])"
  by (auto simp: kept_def nth_append)

lemma kept_link:
  assumes "p < length l" and "fst (l ! p) = None"
  shows "kept l (l[p := (Some n, y)] @ [x])"
  unfolding kept_def
proof (intro allI impI)
  fix r s
  assume "r < length l" and "fst (l ! r) = Some s"
  moreover from this assms have "r \<noteq> p" by auto
  ultimately show "r < length (l[p := (Some n, y)] @ [x]) \<and> fst ((l[p := (Some n, y)] @ [x]) ! r) = Some s"
    by (simp add: nth_append)
qed

lemma linked_succeed:
  assumes "self < length (objects w)"
    and "attr_succeeded_by obj1 = attr_succeeded_by (objects w ! self)"
    and "attr_preceded_by obj1 = attr_preceded_by (objects w ! self)"
    and "attr_succeeded_by new = None"
    and "attr_preceded_by new = Inr (Some self)"
  shows "linked self w (succeed self owner subject new (store self obj1 w))"
proof -
  have "links (store self obj1 w) = links w"
    using assms(1-3) by (rule links_store)
  moreover have "self < length (objects (store self obj1 w))"
    using assms(1) by simp
  ultimately show ?thesis
    unfolding linked_def using assms(1,4,5) by (simp add: links_succeed)
qed

lemma linked_store:
  assumes "linked p w w2"
    and "r < length (objects w2)"
    and "attr_succeeded_by obj = attr_succeeded_by (objects w2 ! r)"
    and "attr_preceded_by obj = attr_preceded_by (objects w2 ! r)"
  shows "linked p w (store r obj w2)"
  using assms(1) unfolding linked_def links_store [OF assms(2-4)] .

lemma new_record_links [simp]:
  "f_succeeded_by (new_friendship owner subject p pre incr c) = None"
  "f_preceded_by (new_friendship owner subject p pre incr c) = Some p"
  "e_succeeded_by (new_enmity owner subject p pre incr c) = None"
  "e_preceded_by (new_enmity owner subject p pre incr c) = Some p"
  by (simp_all add: new_friendship_def new_enmity_def)

lemma linked_form_or_build_up [simp]:
  "linked p w (form_or_build_up_mental_model owner subject w2) = linked p w w2"
  by (simp add: linked_def)

lemma progress_links:
  assumes "progress_relationship self w = Inr w'"
  shows "links w' = links w \<or> linked self w w'"
proof (cases "deref w self")
  case (Inl err)
  with assms show ?thesis by (simp add: progress_relationship_def)
next
  case (Inr obj)
  then have self: "self < length (objects w)" and obj: "objects w ! self = obj"
    by (simp_all add: deref_eq_Inr)
  show ?thesis
  proof (cases obj)
    case (Acquaintance a)
    let ?cfg = "config (game (persons w (a_owner a)))"
    let ?c' = "a_charge a + a_charge_increment a *
      age_difference_effect_on_charge_increment (persons w (a_owner a)) (persons w (a_subject a))"
    let ?a1 = "Acquaintance (a\<lparr>a_charge := ?c'\<rparr>)"
    note r = assms [unfolded Acquaintance_progress_result [OF Inr [unfolded Acquaintance]] Let_def]
    have a1: "attr_succeeded_by ?a1 = attr_succeeded_by (objects w ! self)"
      "attr_preceded_by ?a1 = attr_preceded_by (objects w ! self)"
      unfolding obj Acquaintance by simp_all
    consider (friend) "?c' > charge_threshold_friendship ?cfg"
      | (enemy) "\<not> ?c' > charge_threshold_friendship ?cfg" "?c' < charge_threshold_enmity ?cfg"
      | (stay) "\<not> ?c' > charge_threshold_friendship ?cfg" "\<not> ?c' < charge_threshold_enmity ?cfg"
      by blast
    then show ?thesis
    proof cases
      case friend
      let ?w2 = "succeed self (a_owner a) (a_subject a)
        (Friendship (new_friendship (a_owner a) (a_subject a) self ?a1 (a_charge_increment a) ?c'))
        (store self ?a1 w)"
      have l: "linked self w ?w2"
        by (rule linked_succeed [OF self a1]) simp_all
      from r friend obtain obj4 where
        w': "w' = form_or_build_up_mental_model (a_owner a) (a_subject a) (store self obj4 ?w2)"
        and o4: "attr_succeeded_by obj4 = Some (length (objects w))"
          "attr_preceded_by obj4 = Inr (a_preceded_by a)"
        by auto
      have "linked self w (store self obj4 ?w2)"
        by (rule linked_store [OF l]) (use self o4 in \<open>simp_all add: objects_succeed nth_append\<close>)
      then show ?thesis unfolding w' by simp
    next
      case enemy
      let ?w2 = "succeed self (a_owner a) (a_subject a)
        (Enmity (new_enmity (a_owner a) (a_subject a) self ?a1 (a_charge_increment a) ?c'))
        (store self ?a1 w)"
      have l: "linked self w ?w2"
        by (rule linked_succeed [OF self a1]) simp_all
      from r enemy obtain obj4 where
        w': "w' = form_or_build_up_mental_model (a_owner a) (a_subject a) (store self obj4 ?w2)"
        and o4: "attr_succeeded_by obj4 = Some (length (objects w))"
          "attr_preceded_by obj4 = Inr (a_preceded_by a)"
        by auto
      have "linked self w (store self obj4 ?w2)"
        by (rule linked_store [OF l]) (use self o4 in \<open>simp_all add: objects_succeed nth_append\<close>)
      then show ?thesis unfolding w' by simp
    next
      case stay
      from r stay obtain obj4 where
        w': "w' = form_or_build_up_mental_model (a_owner a) (a_subject a)
                    (store self obj4 (store self ?a1 w))"
        and o4: "attr_succeeded_by obj4 = a_succeeded_by a"
          "attr_preceded_by obj4 = Inr (a_preceded_by a)"
        by auto
      have "links (store self ?a1 w) = links w"
        by (rule links_store [OF self a1])
      moreover have "links (store self obj4 (store self ?a1 w)) = links (store self ?a1 w)"
        by (rule links_store) (use self o4 in simp_all)
      ultimately show ?thesis unfolding w' by simp
    qed
  next
    case (Enmity e)
    let ?cfg = "config (game (persons w (e_owner e)))"
    let ?c' = "e_charge e + e_charge_increment e"
    let ?e1 = "Enmity (e\<lparr>e_charge := ?c'\<rparr>)"
    note r = assms [unfolded Enmity_progress_result [OF Inr [unfolded Enmity]] Let_def]
    have e1: "attr_succeeded_by ?e1 = attr_succeeded_by (objects w ! self)"
      "attr_preceded_by ?e1 = attr_preceded_by (objects w ! self)"
      unfolding obj Enmity by simp_all
    consider (friend) "?c' > charge_threshold_friendship ?cfg"
      | (enemy) "\<not> ?c' > charge_threshold_friendship ?cfg" "?c' < charge_threshold_enmity ?cfg"
      | (stay) "\<not> ?c' > charge_threshold_friendship ?cfg" "\<not> ?c' < charge_threshold_enmity ?cfg"
      by blast
    then show ?thesis
    proof cases
      case friend
      with r have "linked self w w'"
        by (auto intro!: linked_succeed [OF self e1])
      then show ?thesis ..
    next
      case enemy
      with r have "linked self w w'"
        by (auto intro!: linked_succeed [OF self e1])
      then show ?thesis ..
    next
      case stay
      with r have "links w' = links w"
        by (auto simp: links_store [OF self e1])
      then show ?thesis ..
    qed
  next
    case (Friendship f)
    let ?cfg = "config (game (persons w (f_owner f)))"
    let ?c' = "f_charge f + f_charge_increment f"
    let ?f1 = "Friendship (f\<lparr>f_charge := ?c'\<rparr>)"
    note r = assms [unfolded Friendship_progress_result [OF Inr [unfolded Friendship]] Let_def]
    have f1: "attr_succeeded_by ?f1 = attr_succeeded_by (objects w ! self)"
      "attr_preceded_by ?f1 = attr_preceded_by (objects w ! self)"
      unfolding obj Friendship by simp_all
    consider (friend) "?c' > charge_threshold_friendship ?cfg"
      | (enemy) "\<not> ?c' > charge_threshold_friendship ?cfg" "?c' < charge_threshold_enmity ?cfg"
      | (stay) "\<not> ?c' > charge_threshold_friendship ?cfg" "\<not> ?c' < charge_threshold_enmity ?cfg"
      by blast
    then show ?thesis
    proof cases
      case friend
      with r have "linked self w w'"
        by (auto intro!: linked_succeed [OF self f1])
      then show ?thesis ..
    next
      case enemy
      with r have "linked self w w'"
        by (auto intro!: linked_succeed [OF self f1])
      then show ?thesis ..
    next
      case stay
      with r have "links w' = links w"
        by (auto simp: links_store [OF self f1])
      then show ?thesis ..
    qed
  next
    case (Kinship k)
    with assms Inr show ?thesis by (simp add: progress_relationship_def)
  qed
qed

lemma perform_links:
  assumes "perform c w = Inr w'"
  shows "links w' = links w \<or> (\<exists>x. links w' = links w @ [(None, x)]) \<or>
         (\<exists>p. target c = Some p \<and> linked p w w')"
proof (cases c)
  case (New_Kinship owner subject label)
  with assms have "links w' = links w @ [(None, Inl AttributeError)]"
    by (auto simp: Kinship_init_def Let_def)
  then show ?thesis by blast
next
  case (New_Acquaintance owner subject pb)
  with assms obtain self where init: "Acquaintance_init owner subject pb w = Inr (self, w')"
    by (auto simp: bind_err_eq_Inr)
  show ?thesis
  proof (cases pb)
    case None
    with init have "links w' = links w @ [(None, Inr None)]"
      unfolding Acquaintance_init_eq_Inr by (auto simp: new_acquaintance_def)
    then show ?thesis by blast
  next
    case (Some p)
    with init have "linked p w w'"
      unfolding Acquaintance_init_eq_Inr linked_def
      by (auto simp: new_acquaintance_def links_link)
    with Some New_Acquaintance show ?thesis by simp
  qed
next
  case (New_Enmity owner subject pb)
  with assms obtain self where init: "Enmity_init owner subject pb w = Inr (self, w')"
    by (auto simp: bind_err_eq_Inr)
  then obtain p where "pb = Some p" and "linked p w w'"
    unfolding Enmity_init_eq_Inr linked_def by (auto simp: links_link)
  with New_Enmity show ?thesis by simp
next
  case (New_Friendship owner subject pb)
  with assms obtain self where init: "Friendship_init owner subject pb w = Inr (self, w')"
    by (auto simp: bind_err_eq_Inr)
  then obtain p where "pb = Some p" and "linked p w w'"
    unfolding Friendship_init_eq_Inr linked_def by (auto simp: links_link)
  with New_Friendship show ?thesis by simp
next
  case (Progress r)
  with assms progress_links [of r w w'] show ?thesis by auto
qed

lemma perform_chain_ok:
  assumes "chain_ok (links w)" and "perform c w = Inr w'"
  shows "chain_ok (links w')"
proof -
  from perform_links [OF assms(2)]
  consider "links w' = links w" | x where "links w' = links w @ [(None, x)]"
    | p where "linked p w w'"
    by blast
  then show ?thesis
  proof cases
    case 1
    with assms(1) show ?thesis by simp
  next
    case 2
    with assms(1) show ?thesis by (simp add: chain_ok_append)
  next
    case 3
    then have "p < length (links w)"
      and "links w' = (links w)[p := (Some (length (links w)), snd (links w ! p))] @ [(None, Inr (Some p))]"
      by (simp_all add: linked_def)
    with chain_ok_link [OF assms(1), of p] show ?thesis by simp
  qed
qed

lemma perform_kept:
  assumes "perform c w = Inr w'" and "target_active c w"
  shows "kept (links w) (links w')"
proof -
  from perform_links [OF assms(1)]
  consider "links w' = links w" | x where "links w' = links w @ [(None, x)]"
    | p where "target c = Some p" "linked p w w'"
    by blast
  then show ?thesis
  proof cases
    case 1
    then show ?thesis by (simp add: kept_refl)
  next
    case 2
    then show ?thesis by (simp add: kept_append)
  next
    case 3
    then have p: "p < length (objects w)"
      and l: "links w' = (links w)[p := (Some (length (objects w)), snd (links w ! p))] @ [(None, Inr (Some p))]"
      by (simp_all add: linked_def)
    from assms(2) 3(1) p have "fst (links w ! p) = None"
      by (simp add: target_active_def deref_def links_nth)
    with p show ?thesis unfolding l by (intro kept_link) simp_all
  qed
qed

lemma perform_all_chain:
  assumes "chain_ok (links w)" and "perform_all cs w = Inr w'"
  shows "chain_ok (links w') \<and> (targets_active cs w \<longrightarrow> kept (links w) (links w'))"
  using assms
proof (induction cs arbitrary: w)
  case Nil
  then show ?case by (simp add: kept_refl)
next
  case (Cons c cs)
  from Cons.prems(2) obtain w1 where
    step: "perform c w = Inr w1" and rest: "perform_all cs w1 = Inr w'"
    by (auto simp: bind_err_eq_Inr)
  from perform_chain_ok [OF Cons.prems(1) step] have ok1: "chain_ok (links w1)" .
  from Cons.IH [OF ok1 rest] have ok': "chain_ok (links w')"
    and k: "targets_active cs w1 \<longrightarrow> kept (links w1) (links w')"
    by blast+
  have "kept (links w) (links w')" if "targets_active (c # cs) w"
  proof -
    from that step have "target_active c w" and "targets_active cs w1" by simp_all
    with k perform_kept [OF step] show ?thesis by (blast intro: kept_trans)
  qed
  with ok' show ?case by blast
qed

section \<open>The claims\<close>

text \<open>
  C5. For owner and subject traits in \<open>[-1, 1]\<close>, with \<open>d\<close> the sum of the absolute
  differences in openness, extroversion and agreeableness, the compatibility computed for
  an acquaintance is \<open>(3 - d) / 3\<close> and lies in \<open>[-1, 1]\<close>; identical triples give
  exactly 1 and the maximal divergence \<open>d = 6\<close> gives -1.
\<close>

theorem compatibility_bounds:
  assumes "in_trait_range (openness_to_experience (personality own))"
    and "in_trait_range (extroversion (personality own))"
    and "in_trait_range (agreeableness (personality own))"
    and "in_trait_range (openness_to_experience (personality sub))"
    and "in_trait_range (extroversion (personality sub))"
    and "in_trait_range (agreeableness (personality sub))"
  shows "init_get_compatibility own sub = (3 - trait_difference own sub) / 3 \<and>
         -1 \<le> init_get_compatibility own sub \<and> init_get_compatibility own sub \<le> 1 \<and>
         (openness_to_experience (personality own) = openness_to_experience (personality sub) \<and>
          extroversion (personality own) = extroversion (personality sub) \<and>
          agreeableness (personality own) = agreeableness (personality sub)
            \<longrightarrow> init_get_compatibility own sub = 1) \<and>
         (trait_difference own sub = 6 \<longrightarrow> init_get_compatibility own sub = -1)"
proof -
  have formula: "init_get_compatibility own sub = (3 - trait_difference own sub) / 3"
    by (simp add: init_get_compatibility_def trait_difference_def Let_def)
  have "0 \<le> trait_difference own sub" "trait_difference own sub \<le> 6"
    using assms unfolding in_trait_range_def trait_difference_def by linarith+
  then have "-1 \<le> init_get_compatibility own sub" "init_get_compatibility own sub \<le> 1"
    unfolding formula by simp_all
  moreover have "init_get_compatibility own sub = 1"
    if "openness_to_experience (personality own) = openness_to_experience (personality sub) \<and>
        extroversion (personality own) = extroversion (personality sub) \<and>
        agreeableness (personality own) = agreeableness (personality sub)"
    using that by (simp add: init_get_compatibility_def)
  moreover have "init_get_compatibility own sub = -1" if "trait_difference own sub = 6"
    unfolding formula that by simp
  ultimately show ?thesis using formula by blast
qed

theorem compatibility_bounds_witness:
  "(in_trait_range (openness_to_experience (personality alice)) \<and>
    in_trait_range (extroversion (personality alice)) \<and>
    in_trait_range (agreeableness (personality alice)) \<and>
    in_trait_range (openness_to_experience (personality bob)) \<and>
    in_trait_range (extroversion (personality bob)) \<and>
    in_trait_range (agreeableness (personality bob)) \<and>
    trait_difference alice bob = 3/2 \<and> init_get_compatibility alice bob = 1/2) \<and>
   (in_trait_range (openness_to_experience (personality carol)) \<and>
    in_trait_range (extroversion (personality carol)) \<and>
    in_trait_range (agreeableness (personality carol)) \<and>
    in_trait_range (openness_to_experience (personality dave)) \<and>
    in_trait_range (extroversion (personality dave)) \<and>
    in_trait_range (agreeableness (personality dave)) \<and>
    trait_difference carol dave = 6 \<and> init_get_compatibility carol dave = -1) \<and>
   (openness_to_experience (personality carol) = openness_to_experience (personality carol) \<and>
    init_get_compatibility carol carol = 1)"
proof -
  have a: "in_trait_range (openness_to_experience (personality alice))"
    "in_trait_range (extroversion (personality alice))"
    "in_trait_range (agreeableness (personality alice))"
    by (simp_all add: in_trait_range_def alice_def)
  have b: "in_trait_range (openness_to_experience (personality bob))"
    "in_trait_range (extroversion (personality bob))"
    "in_trait_range (agreeableness (personality bob))"
    by (simp_all add: in_trait_range_def bob_def)
  have c: "in_trait_range (openness_to_experience (personality carol))"
    "in_trait_range (extroversion (personality carol))"
    "in_trait_range (agreeableness (personality carol))"
    by (simp_all add: in_trait_range_def carol_def)
  have d: "in_trait_range (openness_to_experience (personality dave))"
    "in_trait_range (extroversion (personality dave))"
    "in_trait_range (agreeableness (personality dave))"
    by (simp_all add: in_trait_range_def dave_def)
  have dab: "trait_difference alice bob = 3/2"
    by (simp add: trait_difference_def alice_def bob_def)
  have dcd: "trait_difference carol dave = 6"
    by (simp add: trait_difference_def carol_def dave_def)
  show ?thesis
    using compatibility_bounds [OF a b] compatibility_bounds [OF c d]
      compatibility_bounds [OF c c] a b c d dab dcd
    by simp
qed

text \<open>
  C6. At the creation of an acquaintance, \<open>charge_increment\<close> is the compatibility plus the
  owner's extroversion times its configured multiplier plus the subject's agreeableness
  times its configured multiplier, the whole sum multiplied by the configured
  sex-difference factor when owner and subject differ in \<open>male\<close>; \<open>charge\<close> starts as
  exactly this increment.
\<close>

theorem charge_increment_at_creation:
  assumes "Acquaintance_init owner subject pb w = Inr (self, w')"
  shows "\<exists>a. deref w' self = Inr (Acquaintance a) \<and>
           a_compatibility a = init_get_compatibility (persons w owner) (persons w subject) \<and>
           a_charge_increment a =
             (if male (persons w owner) \<noteq> male (persons w subject)
              then (a_compatibility a +
                    extroversion (personality (persons w owner)) *
                      owner_extroversion_boost_to_charge_multiplier (config (game (persons w owner))) +
                    agreeableness (personality (persons w subject)) *
                      subject_agreeableness_boost_to_charge_multiplier (config (game (persons w owner)))) *
                   charge_intensity_reduction_due_to_sex_difference (config (game (persons w owner)))
              else a_compatibility a +
                   extroversion (personality (persons w owner)) *
                     owner_extroversion_boost_to_charge_multiplier (config (game (persons w owner))) +
                   agreeableness (personality (persons w subject)) *
                     subject_agreeableness_boost_to_charge_multiplier (config (game (persons w owner)))) \<and>
           a_charge a = a_charge_increment a"
proof -
  from Acquaintance_init_deref [OF assms] obtain spark_incr where
    "deref w' self = Inr (Acquaintance (new_acquaintance owner subject pb spark_incr w))"
    by blast
  then show ?thesis
    by (simp add: new_acquaintance_def init_determine_charge_increment_def Let_def)
qed

theorem charge_increment_at_creation_witness:
  "\<exists>w' a. Acquaintance_init 0 1 None town = Inr (0, w') \<and>
          deref w' 0 = Inr (Acquaintance a) \<and> a_compatibility a = 1/2 \<and>
          a_charge_increment a = 1/2 \<and> a_charge a = 1/2"
proof -
  have "\<exists>w'. Acquaintance_init 0 1 None town = Inr (0, w')"
    by (simp add: model_defs example_defs)
  then obtain w' where init: "Acquaintance_init 0 1 None town = Inr (0, w')" ..
  from charge_increment_at_creation [OF init] obtain a where
    "deref w' 0 = Inr (Acquaintance a)"
    "a_compatibility a = init_get_compatibility (persons town 0) (persons town 1)"
    "a_charge_increment a = (a_compatibility a + 1/2 * (1/2) + 1/2 * (1/2)) * (1/2)"
    "a_charge a = a_charge_increment a"
    by (auto simp: example_defs)
  moreover have "init_get_compatibility (persons town 0) (persons town 1) = 1/2"
    by (simp add: model_defs example_defs)
  ultimately show ?thesis using init by auto
qed

text \<open>
  C7. When the subject is in the owner's extended family, or the subject is male and the
  owner is not attracted to men, or the subject is female and the owner is not attracted
  to women, constructing the acquaintance succeeds and leaves \<open>spark_increment = 0\<close> and
  \<open>spark = 0\<close>, whatever the personalities and the configuration.
\<close>

theorem family_attraction_gating:
  assumes "subject \<in> extended_family (persons w owner) \<or>
           male (persons w subject) \<and> \<not> attracted_to_men (persons w owner) \<or>
           female (persons w subject) \<and> \<not> attracted_to_women (persons w owner)"
    and "case pb of None \<Rightarrow> True | Some p \<Rightarrow> p < length (objects w)"
  shows "\<exists>w' a. Acquaintance_init owner subject pb w = Inr (length (objects w), w') \<and>
           deref w' (length (objects w)) = Inr (Acquaintance a) \<and>
           a_spark_increment a = 0 \<and> a_spark a = 0"
proof -
  have zero: "init_determine_initial_spark_increment owner subject w = Inr 0"
    using assms(1) by (auto simp: init_determine_initial_spark_increment_def Let_def)
  from Acquaintance_init_total [OF zero assms(2)] obtain w' where
    init: "Acquaintance_init owner subject pb w = Inr (length (objects w), w')" ..
  from Acquaintance_init_deref [OF init] zero
  have "deref w' (length (objects w)) = Inr (Acquaintance (new_acquaintance owner subject pb 0 w))"
    by auto
  with init show ?thesis by (auto simp: new_acquaintance_def)
qed

theorem family_attraction_gating_witness:
  "(2 \<in> extended_family (persons town 1) \<and>
    (\<exists>w' a. Acquaintance_init 1 2 None town = Inr (0, w') \<and>
       deref w' 0 = Inr (Acquaintance a) \<and> a_spark_increment a = 0 \<and> a_spark a = 0)) \<and>
   (male (persons town 3) \<and> \<not> attracted_to_men (persons town 1) \<and>
    (\<exists>w' a. Acquaintance_init 1 3 None town = Inr (0, w') \<and>
       deref w' 0 = Inr (Acquaintance a) \<and> a_spark_increment a = 0 \<and> a_spark a = 0)) \<and>
   (female (persons town 4) \<and> \<not> attracted_to_women (persons town 2) \<and>
    (\<exists>w' a. Acquaintance_init 2 4 None town = Inr (0, w') \<and>
       deref w' 0 = Inr (Acquaintance a) \<and> a_spark_increment a = 0 \<and> a_spark a = 0))"
proof -
  have h1: "2 \<in> extended_family (persons town 1)"
    and h2: "male (persons town 3) \<and> \<not> attracted_to_men (persons town 1)"
    and h3: "female (persons town 4) \<and> \<not> attracted_to_women (persons town 2)"
    by (simp_all add: example_defs)
  have e: "length (objects town) = 0" by (simp add: town_def)
  show ?thesis
    using family_attraction_gating [of 2 town 1 None] family_attraction_gating [of 3 town 1 None]
      family_attraction_gating [of 4 town 2 None] h1 h2 h3
    unfolding e by simp
qed

text \<open>
  C8. The two helper computations for the initial spark increment take every trait from the
  subject's personality and none from the owner's, so they return equal values; and when
  neither the family gate nor the attraction gates apply, the initial spark increment is
  exactly twice the sum of the subject's five traits weighted by the multipliers stored
  under the owner's sex key.
\<close>

theorem spark_helpers_read_subject:
  "affect_initial_spark_increment_by_own_personality own sub =
     affect_initial_spark_increment_by_acquaintance_personality own sub \<and>
   affect_initial_spark_increment_by_own_personality (own\<lparr>personality := p\<rparr>) sub =
     affect_initial_spark_increment_by_own_personality own sub \<and>
   affect_initial_spark_increment_by_acquaintance_personality (own\<lparr>personality := p\<rparr>) sub =
     affect_initial_spark_increment_by_acquaintance_personality own sub \<and>
   (subject \<notin> extended_family (persons w owner) \<and>
    \<not> (male (persons w subject) \<and> \<not> attracted_to_men (persons w owner)) \<and>
    \<not> (female (persons w subject) \<and> \<not> attracted_to_women (persons w owner)) \<and>
    sex_key = (if male (persons w owner) then ''m'' else ''f'') \<and>
    openness_boost_to_spark_multiplier (config (game (persons w owner))) sex_key = Some m1 \<and>
    conscientiousness_boost_to_spark_multiplier (config (game (persons w owner))) sex_key = Some m2 \<and>
    extroversion_boost_to_spark_multiplier (config (game (persons w owner))) sex_key = Some m3 \<and>
    agreeableness_boost_to_spark_multiplier (config (game (persons w owner))) sex_key = Some m4 \<and>
    neuroticism_boost_to_spark_multiplier (config (game (persons w owner))) sex_key = Some m5
    \<longrightarrow>
    init_determine_initial_spark_increment owner subject w =
      Inr (2 * (openness_to_experience (personality (persons w subject)) * m1 +
                conscientiousness (personality (persons w subject)) * m2 +
                extroversion (personality (persons w subject)) * m3 +
                agreeableness (personality (persons w subject)) * m4 +
                neuroticism (personality (persons w subject)) * m5)))"
proof -
  have same: "affect_initial_spark_increment_by_own_personality own sub =
      affect_initial_spark_increment_by_acquaintance_personality own sub" for own sub
    by (simp add: affect_initial_spark_increment_by_own_personality_def
        affect_initial_spark_increment_by_acquaintance_personality_def)
  have indep: "affect_initial_spark_increment_by_own_personality (own\<lparr>personality := p\<rparr>) sub =
      affect_initial_spark_increment_by_own_personality own sub"
    by (simp add: affect_initial_spark_increment_by_own_personality_def)
  have twice: "init_determine_initial_spark_increment owner subject w =
      Inr (2 * (openness_to_experience (personality (persons w subject)) * m1 +
                conscientiousness (personality (persons w subject)) * m2 +
                extroversion (personality (persons w subject)) * m3 +
                agreeableness (personality (persons w subject)) * m4 +
                neuroticism (personality (persons w subject)) * m5))"
    if "subject \<notin> extended_family (persons w owner)"
      and "\<not> (male (persons w subject) \<and> \<not> attracted_to_men (persons w owner))"
      and "\<not> (female (persons w subject) \<and> \<not> attracted_to_women (persons w owner))"
      and key: "sex_key = (if male (persons w owner) then ''m'' else ''f'')"
      and "openness_boost_to_spark_multiplier (config (game (persons w owner))) sex_key = Some m1"
      and "conscientiousness_boost_to_spark_multiplier (config (game (persons w owner))) sex_key = Some m2"
      and "extroversion_boost_to_spark_multiplier (config (game (persons w owner))) sex_key = Some m3"
      and "agreeableness_boost_to_spark_multiplier (config (game (persons w owner))) sex_key = Some m4"
      and "neuroticism_boost_to_spark_multiplier (config (game (persons w owner))) sex_key = Some m5"
  proof -
    have "affect_initial_spark_increment_by_acquaintance_personality (persons w owner) (persons w subject) =
        Inr (openness_to_experience (personality (persons w subject)) * m1 +
             conscientiousness (personality (persons w subject)) * m2 +
             extroversion (personality (persons w subject)) * m3 +
             agreeableness (personality (persons w subject)) * m4 +
             neuroticism (personality (persons w subject)) * m5)"
      using that(5-9) unfolding key
      by (simp add: affect_initial_spark_increment_by_acquaintance_personality_def getitem_def Let_def)
    then show ?thesis
      using that(1-3) by (auto simp: init_determine_initial_spark_increment_def same Let_def)
  qed
  show ?thesis using same indep twice by auto
qed

theorem spark_helpers_read_subject_witness:
  "1 \<notin> extended_family (persons town 0) \<and>
   \<not> (male (persons town 1) \<and> \<not> attracted_to_men (persons town 0)) \<and>
   \<not> (female (persons town 1) \<and> \<not> attracted_to_women (persons town 0)) \<and>
   ''f'' = (if male (persons town 0) then ''m'' else ''f'') \<and>
   openness_boost_to_spark_multiplier (config (game (persons town 0))) ''f'' = Some (1/2) \<and>
   conscientiousness_boost_to_spark_multiplier (config (game (persons town 0))) ''f'' = Some (1/2) \<and>
   extroversion_boost_to_spark_multiplier (config (game (persons town 0))) ''f'' = Some 1 \<and>
   agreeableness_boost_to_spark_multiplier (config (game (persons town 0))) ''f'' = Some (1/2) \<and>
   neuroticism_boost_to_spark_multiplier (config (game (persons town 0))) ''f'' = Some (-1) \<and>
   init_determine_initial_spark_increment 0 1 town = Inr (3/2)"
proof -
  have h: "1 \<notin> extended_family (persons town 0) \<and>
     \<not> (male (persons town 1) \<and> \<not> attracted_to_men (persons town 0)) \<and>
     \<not> (female (persons town 1) \<and> \<not> attracted_to_women (persons town 0)) \<and>
     ''f'' = (if male (persons town 0) then ''m'' else ''f'') \<and>
     openness_boost_to_spark_multiplier (config (game (persons town 0))) ''f'' = Some (1/2) \<and>
     conscientiousness_boost_to_spark_multiplier (config (game (persons town 0))) ''f'' = Some (1/2) \<and>
     extroversion_boost_to_spark_multiplier (config (game (persons town 0))) ''f'' = Some 1 \<and>
     agreeableness_boost_to_spark_multiplier (config (game (persons town 0))) ''f'' = Some (1/2) \<and>
     neuroticism_boost_to_spark_multiplier (config (game (persons town 0))) ''f'' = Some (-1)"
    by (simp add: example_defs)
  have traits: "personality (persons town 1) =
      \<lparr>openness_to_experience = -1/2, conscientiousness = 1/2, extroversion = 0,
       agreeableness = 1/2, neuroticism = -1/2\<rparr>"
    by (simp add: example_defs)
  from spark_helpers_read_subject
    [of alice bob "personality bob" 1 town 0 "''f''" "1/2" "1/2" 1 "1/2" "-1"] h
  have "init_determine_initial_spark_increment 0 1 town =
      Inr (2 * (openness_to_experience (personality (persons town 1)) * (1/2) +
                conscientiousness (personality (persons town 1)) * (1/2) +
                extroversion (personality (persons town 1)) * 1 +
                agreeableness (personality (persons town 1)) * (1/2) +
                neuroticism (personality (persons town 1)) * (-1)))"
    by blast
  then have "init_determine_initial_spark_increment 0 1 town = Inr (3/2)"
    unfolding traits by simp
  with h show ?thesis by blast
qed

text \<open>
  C3. After any of the four constructors has built a record for the pair (owner, subject),
  the owner's ledger entry for the subject is the newly constructed record, whatever the
  entry held before.
\<close>

theorem ledger_currency:
  "(Kinship_init owner subject label w = Inr (self, w') \<longrightarrow>
      ledger_holds_new owner subject self w w' \<and> attr_type (objects w' ! self) = ''kinship'') \<and>
   (Acquaintance_init owner subject pb w = Inr (self, w') \<longrightarrow>
      ledger_holds_new owner subject self w w' \<and> attr_type (objects w' ! self) = ''acquaintance'') \<and>
   (Friendship_init owner subject pb w = Inr (self, w') \<longrightarrow>
      ledger_holds_new owner subject self w w' \<and> attr_type (objects w' ! self) = ''friendship'') \<and>
   (Enmity_init owner subject pb w = Inr (self, w') \<longrightarrow>
      ledger_holds_new owner subject self w w' \<and> attr_type (objects w' ! self) = ''enmity'')"
proof (intro conjI impI)
  assume "Kinship_init owner subject label w = Inr (self, w')"
  then show "ledger_holds_new owner subject self w w'"
    and "attr_type (objects w' ! self) = ''kinship''"
    by (auto simp: Kinship_init_def ledger_holds_new_def Let_def nth_append)
next
  assume init: "Acquaintance_init owner subject pb w = Inr (self, w')"
  obtain w1 spark_incr where
    w1: "persons w1 = persons w" "length (objects w1) = length (objects w)"
    and self: "self = length (objects w)"
    and w': "w' = form_or_build_up_mental_model owner subject
               (allocate (Acquaintance (new_acquaintance owner subject pb spark_incr w))
                 (set_relationship owner subject self w1))"
  proof (cases pb)
    case None
    with init show ?thesis
      unfolding Acquaintance_init_eq_Inr by (auto intro: that [of w])
  next
    case (Some p)
    with init show ?thesis
      unfolding Acquaintance_init_eq_Inr
      by (auto intro: that [of "store p (set_succeeded_by (Some self) (objects w ! p)) w"])
  qed
  show "ledger_holds_new owner subject self w w'"
    unfolding w' ledger_holds_new_def
    by (simp add: self w1 person_form_or_build_up new_acquaintance_def nth_append)
  show "attr_type (objects w' ! self) = ''acquaintance''"
    unfolding w' by (simp add: self w1 new_acquaintance_def nth_append)
next
  assume "Friendship_init owner subject pb w = Inr (self, w')"
  then show "ledger_holds_new owner subject self w w'"
    and "attr_type (objects w' ! self) = ''friendship''"
    unfolding Friendship_init_eq_Inr by (auto simp: ledger_holds_new_def nth_append)
next
  assume "Enmity_init owner subject pb w = Inr (self, w')"
  then show "ledger_holds_new owner subject self w w'"
    and "attr_type (objects w' ! self) = ''enmity''"
    unfolding Enmity_init_eq_Inr by (auto simp: ledger_holds_new_def nth_append)
qed

theorem ledger_currency_witness:
  "\<exists>w1 w2 w3 w4.
     Kinship_init 1 2 ''sister'' town = Inr (0, w1) \<and>
     relationships (persons w1 1) 2 = Some 0 \<and>
     Acquaintance_init 0 1 None town = Inr (0, w2) \<and>
     relationships (persons w2 0) 1 = Some 0 \<and>
     Friendship_init 0 1 (Some 0) w2 = Inr (1, w3) \<and>
     relationships (persons w3 0) 1 = Some 1 \<and>
     Enmity_init 0 1 (Some 0) w2 = Inr (1, w4) \<and>
     relationships (persons w4 0) 1 = Some 1"
proof -
  define w1 where "w1 = snd (projr (Kinship_init 1 2 ''sister'' town))"
  define w2 where "w2 = snd (projr (Acquaintance_init 0 1 None town))"
  define w3 where "w3 = snd (projr (Friendship_init 0 1 (Some 0) w2))"
  define w4 where "w4 = snd (projr (Enmity_init 0 1 (Some 0) w2))"
  have k: "Kinship_init 1 2 ''sister'' town = Inr (0, w1)"
    unfolding w1_def by (simp add: model_defs example_defs)
  have a: "Acquaintance_init 0 1 None town = Inr (0, w2)"
    unfolding w2_def by (simp add: model_defs example_defs)
  have f: "Friendship_init 0 1 (Some 0) w2 = Inr (1, w3)"
    unfolding w3_def w2_def by (simp add: model_defs example_defs)
  have e: "Enmity_init 0 1 (Some 0) w2 = Inr (1, w4)"
    unfolding w4_def w2_def by (simp add: model_defs example_defs)
  have "relationships (persons w1 1) 2 = Some 0"
    using ledger_currency [of 1 2 "''sister''" town 0 w1 None] k
    unfolding ledger_holds_new_def by blast
  moreover have "relationships (persons w2 0) 1 = Some 0"
    using ledger_currency [of 0 1 "''x''" town 0 w2 None] a
    unfolding ledger_holds_new_def by blast
  moreover have "relationships (persons w3 0) 1 = Some 1"
    using ledger_currency [of 0 1 "''x''" w2 1 w3 "Some 0"] f
    unfolding ledger_holds_new_def by blast
  moreover have "relationships (persons w4 0) 1 = Some 1"
    using ledger_currency [of 0 1 "''x''" w2 1 w4 "Some 0"] e
    unfolding ledger_holds_new_def by blast
  ultimately show ?thesis using k a f e by blast
qed

text \<open>
  C9 (as amended). Constructing a \<open>Friendship\<close> or an \<open>Enmity\<close> with a null predecessor does
  not complete: it raises \<open>AttributeError\<close>. Nothing checks whether the predecessor already
  has a successor: with any predecessor that carries \<open>charge_increment\<close> and \<open>charge\<close>,
  construction completes and the predecessor's \<open>succeeded_by\<close> becomes the new record.
\<close>

theorem successor_needs_predecessor:
  "Friendship_init owner subject None w = Inl AttributeError \<and>
   Enmity_init owner subject None w = Inl AttributeError \<and>
   (p < length (objects w) \<and> attr_charge_increment (objects w ! p) = Inr incr \<and>
    attr_charge (objects w ! p) = Inr c \<longrightarrow>
      (\<exists>w'. Friendship_init owner subject (Some p) w = Inr (length (objects w), w') \<and>
            attr_succeeded_by (objects w' ! p) = Some (length (objects w))) \<and>
      (\<exists>w'. Enmity_init owner subject (Some p) w = Inr (length (objects w), w') \<and>
            attr_succeeded_by (objects w' ! p) = Some (length (objects w))))"
proof (intro conjI impI)
  show "Friendship_init owner subject None w = Inl AttributeError"
    by (simp add: Friendship_init_def)
  show "Enmity_init owner subject None w = Inl AttributeError"
    by (simp add: Enmity_init_def)
next
  assume h: "p < length (objects w) \<and> attr_charge_increment (objects w ! p) = Inr incr \<and>
    attr_charge (objects w ! p) = Inr c"
  then show "\<exists>w'. Friendship_init owner subject (Some p) w = Inr (length (objects w), w') \<and>
            attr_succeeded_by (objects w' ! p) = Some (length (objects w))"
    unfolding Friendship_init_eq_Inr by (simp add: nth_append)
  from h show "\<exists>w'. Enmity_init owner subject (Some p) w = Inr (length (objects w), w') \<and>
            attr_succeeded_by (objects w' ! p) = Some (length (objects w))"
    unfolding Enmity_init_eq_Inr by (simp add: nth_append)
qed

theorem successor_needs_predecessor_witness:
  "\<exists>w1 w2 w3.
     Acquaintance_init 0 1 None town = Inr (0, w1) \<and>
     0 < length (objects w1) \<and> attr_charge_increment (objects w1 ! 0) = Inr (1/2) \<and>
     attr_charge (objects w1 ! 0) = Inr (1/2) \<and>
     Friendship_init 0 1 (Some 0) w1 = Inr (1, w2) \<and>
     attr_succeeded_by (objects w2 ! 0) = Some 1 \<and>
     Enmity_init 0 1 (Some 0) w1 = Inr (1, w3) \<and>
     attr_succeeded_by (objects w3 ! 0) = Some 1"
proof -
  define w1 where "w1 = snd (projr (Acquaintance_init 0 1 None town))"
  have a: "Acquaintance_init 0 1 None town = Inr (0, w1)"
    unfolding w1_def by (simp add: model_defs example_defs)
  have h: "0 < length (objects w1) \<and> attr_charge_increment (objects w1 ! 0) = Inr (1/2) \<and>
      attr_charge (objects w1 ! 0) = Inr (1/2)"
    unfolding w1_def by (simp add: model_defs example_defs)
  have len: "length (objects w1) = 1"
    unfolding w1_def by (simp add: model_defs example_defs)
  from successor_needs_predecessor [of 0 1 w1 0 "1/2" "1/2"] h
  obtain w2 w3 where
    "Friendship_init 0 1 (Some 0) w1 = Inr (length (objects w1), w2)"
    "attr_succeeded_by (objects w2 ! 0) = Some (length (objects w1))"
    "Enmity_init 0 1 (Some 0) w1 = Inr (length (objects w1), w3)"
    "attr_succeeded_by (objects w3 ! 0) = Some (length (objects w1))"
    by blast
  note r = this [unfolded len]
  show ?thesis
    by (rule exI [of _ w1], rule exI [of _ w2], rule exI [of _ w3]) (use a h r in simp)
qed

text \<open>
  The claim as stated fails: a predecessor that already has a successor is accepted. After
  an acquaintance and a friendship that succeeds it, an enmity built on the same
  acquaintance completes and replaces the acquaintance's successor.
\<close>

theorem successor_not_checked_counterexample:
  "successor_after [New_Acquaintance 0 1 None, New_Friendship 0 1 (Some 0)] town 0 = Inr (Some 1) \<and>
   successor_after [New_Acquaintance 0 1 None, New_Friendship 0 1 (Some 0),
                    New_Enmity 0 1 (Some 0)] town 0 = Inr (Some 2)"
  by (simp add: successor_after_def model_defs example_defs)

text \<open>
  C1 (as amended). One call of \<open>progress_relationship\<close> adds to \<open>charge\<close>, for an
  \<open>Acquaintance\<close>, \<open>charge_increment\<close> multiplied by the configured age-difference effect
  of the two current ages; for an \<open>Enmity\<close> and for a \<open>Friendship\<close> it adds
  \<open>charge_increment\<close> itself, with no age-difference factor.
\<close>

theorem progress_charge_update:
  "(deref w self = Inr (Acquaintance a) \<longrightarrow>
      charge_after_progress self w =
        Inr (a_charge a + a_charge_increment a *
               function_to_determine_how_age_difference_reduces_charge_intensity
                 (config (game (persons w (a_owner a))))
                 (age (persons w (a_owner a))) (age (persons w (a_subject a))))) \<and>
   (deref w self = Inr (Enmity e) \<longrightarrow>
      charge_after_progress self w = Inr (e_charge e + e_charge_increment e)) \<and>
   (deref w self = Inr (Friendship f) \<longrightarrow>
      charge_after_progress self w = Inr (f_charge f + f_charge_increment f))"
  using charge_after_progress_cases [of w self a e f]
  by (simp add: age_difference_effect_on_charge_increment_def)

theorem progress_charge_update_witness:
  "deref (acquaintance_at_four 0 1 (3/2)) 0 =
     Inr (Acquaintance
          \<lparr>a_type = ''acquaintance'', a_owner = 0, a_subject = 1,
           a_preceded_by = None, a_succeeded_by = None,
           a_where_they_met = Some 8, a_when_they_met = Some 100,
           a_compatibility = 1, a_charge_increment = 3/2, a_charge = 4,
           a_spark_increment = 1, a_spark = 2\<rparr>) \<and>
   charge_after_progress 0 (acquaintance_at_four 0 1 (3/2)) = Inr (19/4) \<and>
   deref (enmity_at_four (3/2)) 1 =
     Inr (Enmity
          \<lparr>e_type = ''enmity'', e_owner = 0, e_subject = 1,
           e_preceded_by = Some 0, e_succeeded_by = None,
           e_where_they_met = Some 7, e_when_they_met = Some 100,
           e_charge_increment = 3/2, e_charge = 4\<rparr>) \<and>
   charge_after_progress 1 (enmity_at_four (3/2)) = Inr (11/2) \<and>
   deref (friendship_at_four (3/2)) 1 =
     Inr (Friendship
          \<lparr>f_type = ''friendship'', f_owner = 0, f_subject = 1,
           f_preceded_by = Some 0, f_succeeded_by = None,
           f_where_they_met = Some 7, f_when_they_met = Some 100,
           f_charge_increment = 3/2, f_charge = 4\<rparr>) \<and>
   charge_after_progress 1 (friendship_at_four (3/2)) = Inr (11/2)"
proof -
  have a: "deref (acquaintance_at_four 0 1 (3/2)) 0 =
     Inr (Acquaintance
          \<lparr>a_type = ''acquaintance'', a_owner = 0, a_subject = 1,
           a_preceded_by = None, a_succeeded_by = None,
           a_where_they_met = Some 8, a_when_they_met = Some 100,
           a_compatibility = 1, a_charge_increment = 3/2, a_charge = 4,
           a_spark_increment = 1, a_spark = 2\<rparr>)"
    by (simp add: acquaintance_at_four_def deref_def)
  have e: "deref (enmity_at_four (3/2)) 1 =
     Inr (Enmity
          \<lparr>e_type = ''enmity'', e_owner = 0, e_subject = 1,
           e_preceded_by = Some 0, e_succeeded_by = None,
           e_where_they_met = Some 7, e_when_they_met = Some 100,
           e_charge_increment = 3/2, e_charge = 4\<rparr>)"
    by (simp add: enmity_at_four_def deref_def)
  have f: "deref (friendship_at_four (3/2)) 1 =
     Inr (Friendship
          \<lparr>f_type = ''friendship'', f_owner = 0, f_subject = 1,
           f_preceded_by = Some 0, f_succeeded_by = None,
           f_where_they_met = Some 7, f_when_they_met = Some 100,
           f_charge_increment = 3/2, f_charge = 4\<rparr>)"
    by (simp add: friendship_at_four_def deref_def)
  have "charge_after_progress 0 (acquaintance_at_four 0 1 (3/2)) = Inr (19/4)"
    using progress_charge_update [of "acquaintance_at_four 0 1 (3/2)" 0, THEN conjunct1, rule_format, OF a]
    by (simp add: acquaintance_at_four_def example_defs)
  moreover have "charge_after_progress 1 (enmity_at_four (3/2)) = Inr (11/2)"
    using progress_charge_update [of "enmity_at_four (3/2)" 1, THEN conjunct2, THEN conjunct1,
        rule_format, OF e]
    by simp
  moreover have "charge_after_progress 1 (friendship_at_four (3/2)) = Inr (11/2)"
    using progress_charge_update [of "friendship_at_four (3/2)" 1, THEN conjunct2, THEN conjunct2,
        rule_format, OF f]
    by simp
  ultimately show ?thesis using a e f by blast
qed

text \<open>
  The claim as stated fails for \<open>Friendship\<close> and \<open>Enmity\<close>: alice (30) and bob (40) have
  the age-difference effect 1/2, so the specification's step from charge 4 with increment
  3/2 is 19/4, while their friendship and their enmity step to 11/2.
\<close>

theorem progress_charge_update_counterexample:
  "charge_after_progress 1 (friendship_at_four (3/2)) = Inr (11/2) \<and>
   spec_charge_after_progress 1 (friendship_at_four (3/2)) = Inr (19/4) \<and>
   charge_after_progress 1 (enmity_at_four (3/2)) = Inr (11/2) \<and>
   spec_charge_after_progress 1 (enmity_at_four (3/2)) = Inr (19/4)"
  by (simp add: charge_after_progress_def spec_charge_after_progress_def
      friendship_at_four_def enmity_at_four_def model_defs example_defs)

text \<open>
  C4 (as amended). During \<open>progress_relationship\<close> of an \<open>Acquaintance\<close>, \<open>Enmity\<close> or
  \<open>Friendship\<close>, after the charge update, a \<open>Friendship\<close> is constructed exactly when the
  charge is strictly above \<open>charge_threshold_friendship\<close>, otherwise an \<open>Enmity\<close> exactly
  when it is strictly below \<open>charge_threshold_enmity\<close>, otherwise nothing is constructed.
  With thresholds 5 and -5, a \<open>Friendship\<close> or \<open>Enmity\<close> record, or an \<open>Acquaintance\<close>
  whose age-difference effect is 1, at charge 4 with increment 3/2 reaches 11/2 and a
  \<open>Friendship\<close> is constructed; with increment -2 it reaches 2 and nothing is constructed.
\<close>

theorem threshold_transitions:
  assumes "deref w self = Inr obj"
    and "attr_charge_increment obj = Inr incr"
    and "attr_charge obj = Inr c"
  shows "\<exists>w' c'. progress_relationship self w = Inr w' \<and>
           charge_after_progress self w = Inr c' \<and>
           constructed w w' =
             (if c' > charge_threshold_friendship (config (game (persons w (attr_owner obj))))
              then [Friendship (new_friendship (attr_owner obj) (attr_subject obj) self obj incr c')]
              else if c' < charge_threshold_enmity (config (game (persons w (attr_owner obj))))
              then [Enmity (new_enmity (attr_owner obj) (attr_subject obj) self obj incr c')]
              else []) \<and>
           ((case obj of
               Acquaintance a \<Rightarrow>
                 age_difference_effect_on_charge_increment
                   (persons w (a_owner a)) (persons w (a_subject a)) = 1
             | _ \<Rightarrow> True) \<and>
            charge_threshold_friendship (config (game (persons w (attr_owner obj)))) = 5 \<and>
            charge_threshold_enmity (config (game (persons w (attr_owner obj)))) = -5 \<and>
            c = 4 \<and> incr = 3/2
            \<longrightarrow> c' = 11/2 \<and>
                constructed w w' =
                  [Friendship (new_friendship (attr_owner obj) (attr_subject obj) self obj (3/2) (11/2))]) \<and>
           ((case obj of
               Acquaintance a \<Rightarrow>
                 age_difference_effect_on_charge_increment
                   (persons w (a_owner a)) (persons w (a_subject a)) = 1
             | _ \<Rightarrow> True) \<and>
            charge_threshold_friendship (config (game (persons w (attr_owner obj)))) = 5 \<and>
            charge_threshold_enmity (config (game (persons w (attr_owner obj)))) = -5 \<and>
            c = 4 \<and> incr = -2
            \<longrightarrow> c' = 2 \<and> constructed w w' = [])"
proof -
  from progress_outcome [OF assms(1,2)] obtain w' c' where
    p: "progress_relationship self w = Inr w'"
    and c': "charge_after_progress self w = Inr c'"
    and n: "constructed w w' =
             (if c' > charge_threshold_friendship (config (game (persons w (attr_owner obj))))
              then [Friendship (new_friendship (attr_owner obj) (attr_subject obj) self obj incr c')]
              else if c' < charge_threshold_enmity (config (game (persons w (attr_owner obj))))
              then [Enmity (new_enmity (attr_owner obj) (attr_subject obj) self obj incr c')]
              else [])"
    by blast
  have step: "c' = c + incr"
    if "case obj of
          Acquaintance a \<Rightarrow>
            age_difference_effect_on_charge_increment
              (persons w (a_owner a)) (persons w (a_subject a)) = 1
        | _ \<Rightarrow> True"
  proof (cases obj)
    case (Acquaintance a)
    with charge_after_progress_cases [of w self a] assms c' that show ?thesis by simp
  next
    case (Enmity e)
    with charge_after_progress_cases [of w self _ e] assms c' show ?thesis by simp
  next
    case (Friendship f)
    with charge_after_progress_cases [of w self _ _ f] assms c' show ?thesis by simp
  next
    case (Kinship k)
    with assms(2) show ?thesis by simp
  qed
  let ?thr_f = "charge_threshold_friendship (config (game (persons w (attr_owner obj))))"
  let ?thr_e = "charge_threshold_enmity (config (game (persons w (attr_owner obj))))"
  let ?unscaled = "case obj of
      Acquaintance a \<Rightarrow>
        age_difference_effect_on_charge_increment
          (persons w (a_owner a)) (persons w (a_subject a)) = 1
    | _ \<Rightarrow> True"
  have up: "c' = 11/2 \<and>
      constructed w w' =
        [Friendship (new_friendship (attr_owner obj) (attr_subject obj) self obj (3/2) (11/2))]"
    if h: "?unscaled \<and> ?thr_f = 5 \<and> ?thr_e = -5 \<and> c = 4 \<and> incr = 3/2"
  proof -
    from h have s: ?unscaled and t: "?thr_f = 5" "?thr_e = -5" and cv: "c = 4" and iv: "incr = 3/2"
      by blast+
    have v: "c' = 11/2" using step [OF s] unfolding cv iv by simp
    show ?thesis using n unfolding t iv v by simp
  qed
  have down: "c' = 2 \<and> constructed w w' = []"
    if h: "?unscaled \<and> ?thr_f = 5 \<and> ?thr_e = -5 \<and> c = 4 \<and> incr = -2"
  proof -
    from h have s: ?unscaled and t: "?thr_f = 5" "?thr_e = -5" and cv: "c = 4" and iv: "incr = -2"
      by blast+
    have v: "c' = 2" using step [OF s] unfolding cv iv by simp
    show ?thesis using n unfolding t iv v by simp
  qed
  show ?thesis
    by (rule exI [of _ w'], rule exI [of _ c']) (use p c' n up down in blast)
qed

theorem threshold_transitions_witness:
  "(\<exists>w'. progress_relationship 1 (friendship_at_four (3/2)) = Inr w' \<and>
          charge_after_progress 1 (friendship_at_four (3/2)) = Inr (11/2) \<and>
          constructed (friendship_at_four (3/2)) w' =
            [Friendship
               \<lparr>f_type = ''friendship'', f_owner = 0, f_subject = 1,
                f_preceded_by = Some 1, f_succeeded_by = None,
                f_where_they_met = Some 7, f_when_they_met = Some 100,
                f_charge_increment = 3/2, f_charge = 11/2\<rparr>]) \<and>
   (\<exists>w'. progress_relationship 1 (enmity_at_four (-2)) = Inr w' \<and>
          charge_after_progress 1 (enmity_at_four (-2)) = Inr 2 \<and>
          constructed (enmity_at_four (-2)) w' = []) \<and>
   (\<exists>w'. progress_relationship 0 (acquaintance_at_four 2 4 (3/2)) = Inr w' \<and>
          charge_after_progress 0 (acquaintance_at_four 2 4 (3/2)) = Inr (11/2) \<and>
          constructed (acquaintance_at_four 2 4 (3/2)) w' =
            [Friendship
               \<lparr>f_type = ''friendship'', f_owner = 2, f_subject = 4,
                f_preceded_by = Some 0, f_succeeded_by = None,
                f_where_they_met = Some 8, f_when_they_met = Some 100,
                f_charge_increment = 3/2, f_charge = 11/2\<rparr>])"
proof (intro conjI)
  let ?f = "Friendship
          \<lparr>f_type = ''friendship'', f_owner = 0, f_subject = 1,
           f_preceded_by = Some 0, f_succeeded_by = None,
           f_where_they_met = Some 7, f_when_they_met = Some 100,
           f_charge_increment = 3/2, f_charge = 4\<rparr>"
  have d: "deref (friendship_at_four (3/2)) 1 = Inr ?f"
    by (simp add: friendship_at_four_def deref_def)
  have t: "charge_threshold_friendship (config (game (persons (friendship_at_four (3/2)) 0))) = 5"
    "charge_threshold_enmity (config (game (persons (friendship_at_four (3/2)) 0))) = -5"
    by (simp_all add: friendship_at_four_def example_defs)
  from threshold_transitions [OF d, of "3/2" 4] t
  show "\<exists>w'. progress_relationship 1 (friendship_at_four (3/2)) = Inr w' \<and>
          charge_after_progress 1 (friendship_at_four (3/2)) = Inr (11/2) \<and>
          constructed (friendship_at_four (3/2)) w' =
            [Friendship
               \<lparr>f_type = ''friendship'', f_owner = 0, f_subject = 1,
                f_preceded_by = Some 1, f_succeeded_by = None,
                f_where_they_met = Some 7, f_when_they_met = Some 100,
                f_charge_increment = 3/2, f_charge = 11/2\<rparr>]"
    by (auto simp: new_friendship_def)
next
  let ?e = "Enmity
          \<lparr>e_type = ''enmity'', e_owner = 0, e_subject = 1,
           e_preceded_by = Some 0, e_succeeded_by = None,
           e_where_they_met = Some 7, e_when_they_met = Some 100,
           e_charge_increment = -2, e_charge = 4\<rparr>"
  have d: "deref (enmity_at_four (-2)) 1 = Inr ?e"
    by (simp add: enmity_at_four_def deref_def)
  have t: "charge_threshold_friendship (config (game (persons (enmity_at_four (-2)) 0))) = 5"
    "charge_threshold_enmity (config (game (persons (enmity_at_four (-2)) 0))) = -5"
    by (simp_all add: enmity_at_four_def example_defs)
  from threshold_transitions [OF d, of "-2" 4] t
  show "\<exists>w'. progress_relationship 1 (enmity_at_four (-2)) = Inr w' \<and>
          charge_after_progress 1 (enmity_at_four (-2)) = Inr 2 \<and>
          constructed (enmity_at_four (-2)) w' = []"
    by auto
next
  let ?a = "Acquaintance
          \<lparr>a_type = ''acquaintance'', a_owner = 2, a_subject = 4,
           a_preceded_by = None, a_succeeded_by = None,
           a_where_they_met = Some 8, a_when_they_met = Some 100,
           a_compatibility = 1, a_charge_increment = 3/2, a_charge = 4,
           a_spark_increment = 1, a_spark = 2\<rparr>"
  have d: "deref (acquaintance_at_four 2 4 (3/2)) 0 = Inr ?a"
    by (simp add: acquaintance_at_four_def deref_def)
  have t: "charge_threshold_friendship (config (game (persons (acquaintance_at_four 2 4 (3/2)) 2))) = 5"
    "charge_threshold_enmity (config (game (persons (acquaintance_at_four 2 4 (3/2)) 2))) = -5"
    "age_difference_effect_on_charge_increment
       (persons (acquaintance_at_four 2 4 (3/2)) 2) (persons (acquaintance_at_four 2 4 (3/2)) 4) = 1"
    by (simp_all add: acquaintance_at_four_def example_defs
        age_difference_effect_on_charge_increment_def)
  from threshold_transitions [OF d, of "3/2" 4] t
  show "\<exists>w'. progress_relationship 0 (acquaintance_at_four 2 4 (3/2)) = Inr w' \<and>
          charge_after_progress 0 (acquaintance_at_four 2 4 (3/2)) = Inr (11/2) \<and>
          constructed (acquaintance_at_four 2 4 (3/2)) w' =
            [Friendship
               \<lparr>f_type = ''friendship'', f_owner = 2, f_subject = 4,
                f_preceded_by = Some 0, f_succeeded_by = None,
                f_where_they_met = Some 8, f_when_they_met = Some 100,
                f_charge_increment = 3/2, f_charge = 11/2\<rparr>]"
    by (auto simp: new_friendship_def)
qed

text \<open>
  The claim as stated fails for an \<open>Acquaintance\<close> whose age-difference effect is not 1:
  alice (30) and bob (40) have the effect 1/2, so from charge 4 the increment 3/2 gives 19/4
  and no friendship, and the increment -2 gives 3, not 2.
\<close>

theorem threshold_example_counterexample:
  "charge_after_progress 0 (acquaintance_at_four 0 1 (3/2)) = Inr (19/4) \<and>
   map_sum id (constructed (acquaintance_at_four 0 1 (3/2)))
     (progress_relationship 0 (acquaintance_at_four 0 1 (3/2))) = Inr [] \<and>
   charge_after_progress 0 (acquaintance_at_four 0 1 (-2)) = Inr 3"
  by (simp add: charge_after_progress_def constructed_def acquaintance_at_four_def
      model_defs example_defs)

text \<open>
  C10. Every call of \<open>Acquaintance.progress_relationship\<close> returns, and after the threshold
  test it multiplies \<open>spark_increment\<close> by \<open>spark_decay_rate\<close>, adds the new
  \<open>spark_increment\<close> times the age-difference effect to \<open>spark\<close>, and folds a fresh
  observation of the subject into the owner's mental model. This also happens in a call
  that crosses a threshold: the acquaintance then already has the newly constructed record
  as its successor and is still modified.
\<close>

theorem acquaintance_progress_continues:
  assumes "deref w self = Inr (Acquaintance a)"
  shows "\<exists>w' a'. progress_relationship self w = Inr w' \<and>
           deref w' self = Inr (Acquaintance a') \<and>
           a_charge a' =
             a_charge a + a_charge_increment a *
               age_difference_effect_on_charge_increment
                 (persons w (a_owner a)) (persons w (a_subject a)) \<and>
           a_spark_increment a' =
             a_spark_increment a * spark_decay_rate (config (game (persons w (a_owner a)))) \<and>
           a_spark a' =
             a_spark a + a_spark_increment a' *
               age_difference_effect_on_spark_increment
                 (persons w (a_owner a)) (persons w (a_subject a)) \<and>
           mental_models (persons w' (a_owner a)) (a_subject a) =
             Some ((case mental_models (persons w (a_owner a)) (a_subject a) of
                      None \<Rightarrow> [] | Some model \<Rightarrow> model) @
                   [Observation (a_subject a) (a_owner a)]) \<and>
           (a_charge a' > charge_threshold_friendship (config (game (persons w (a_owner a)))) \<or>
            a_charge a' < charge_threshold_enmity (config (game (persons w (a_owner a))))
            \<longrightarrow> a_succeeded_by a' = Some (length (objects w)) \<and>
                length (objects w') = Suc (length (objects w)) \<and>
                attr_preceded_by (objects w' ! length (objects w)) = Inr (Some self))"
proof -
  from assms have self: "self < length (objects w)" by (simp add: deref_eq_Inr)
  let ?cfg = "config (game (persons w (a_owner a)))"
  let ?c' = "a_charge a + a_charge_increment a *
    age_difference_effect_on_charge_increment (persons w (a_owner a)) (persons w (a_subject a))"
  note r = Acquaintance_progress_result [OF assms, unfolded Let_def]
  consider (friend) "?c' > charge_threshold_friendship ?cfg"
    | (enemy) "\<not> ?c' > charge_threshold_friendship ?cfg" "?c' < charge_threshold_enmity ?cfg"
    | (stay) "\<not> ?c' > charge_threshold_friendship ?cfg" "\<not> ?c' < charge_threshold_enmity ?cfg"
    by blast
  then show ?thesis
  proof cases
    case friend
    show ?thesis
      unfolding r using friend self
      by (simp add: deref_def objects_succeed nth_append person_form_or_build_up persons_succeed
          new_friendship_def)
  next
    case enemy
    show ?thesis
      unfolding r using enemy self
      by (simp add: deref_def objects_succeed nth_append person_form_or_build_up persons_succeed
          new_enmity_def)
  next
    case stay
    show ?thesis
      unfolding r using stay self
      by (simp add: deref_def person_form_or_build_up)
  qed
qed

theorem acquaintance_progress_continues_witness:
  "deref (acquaintance_at_four 0 1 3) 0 =
     Inr (Acquaintance
          \<lparr>a_type = ''acquaintance'', a_owner = 0, a_subject = 1,
           a_preceded_by = None, a_succeeded_by = None,
           a_where_they_met = Some 8, a_when_they_met = Some 100,
           a_compatibility = 1, a_charge_increment = 3, a_charge = 4,
           a_spark_increment = 1, a_spark = 2\<rparr>) \<and>
   (\<exists>w' a'. progress_relationship 0 (acquaintance_at_four 0 1 3) = Inr w' \<and>
      deref w' 0 = Inr (Acquaintance a') \<and>
      a_charge a' = 11/2 \<and> a_spark_increment a' = 9/10 \<and> a_spark a' = 49/20 \<and>
      mental_models (persons w' 0) 1 = Some [Observation 1 0] \<and>
      a_succeeded_by a' = Some 1 \<and> length (objects w') = 2 \<and>
      attr_preceded_by (objects w' ! 1) = Inr (Some 0))"
proof -
  let ?w = "acquaintance_at_four 0 1 3"
  let ?a = "\<lparr>a_type = ''acquaintance'', a_owner = 0, a_subject = 1,
           a_preceded_by = None, a_succeeded_by = None,
           a_where_they_met = Some 8, a_when_they_met = Some 100,
           a_compatibility = 1, a_charge_increment = 3, a_charge = 4,
           a_spark_increment = 1, a_spark = 2\<rparr>"
  have d: "deref ?w 0 = Inr (Acquaintance ?a)"
    by (simp add: acquaintance_at_four_def deref_def)
  have v: "age_difference_effect_on_charge_increment (persons ?w 0) (persons ?w 1) = 1/2"
    "age_difference_effect_on_spark_increment (persons ?w 0) (persons ?w 1) = 1/2"
    "spark_decay_rate (config (game (persons ?w 0))) = 9/10"
    "charge_threshold_friendship (config (game (persons ?w 0))) = 5"
    "mental_models (persons ?w 0) 1 = None"
    "length (objects ?w) = 1"
    by (simp_all add: acquaintance_at_four_def example_defs
        age_difference_effect_on_charge_increment_def age_difference_effect_on_spark_increment_def)
  from acquaintance_progress_continues [OF d] obtain w' a' where
    "progress_relationship 0 ?w = Inr w'"
    "deref w' 0 = Inr (Acquaintance a')"
    "a_charge a' = 4 + 3 * (1/2)"
    "a_spark_increment a' = 1 * (9/10)"
    "a_spark a' = 2 + a_spark_increment a' * (1/2)"
    "mental_models (persons w' 0) 1 = Some ([] @ [Observation 1 0])"
    "a_charge a' > 5 \<longrightarrow> a_succeeded_by a' = Some 1 \<and> length (objects w') = Suc 1 \<and>
       attr_preceded_by (objects w' ! 1) = Inr (Some 0)"
    using v by auto
  then show ?thesis using d by auto
qed

text \<open>
  C2 (as amended). Over any sequence of constructor and \<open>progress_relationship\<close> calls that
  return, chain integrity is preserved: whenever \<open>R.succeeded_by\<close> is a record \<open>S\<close>,
  \<open>S.preceded_by\<close> is \<open>R\<close>. A record's \<open>succeeded_by\<close> is assigned every time a successor
  is constructed on it and nothing prevents a second assignment; if every call of the
  sequence targets a record that has no successor at that moment, every successor already
  assigned stays the same.
\<close>

theorem chain_integrity_preserved:
  assumes "chain_integrity w" and "perform_all cs w = Inr w'"
  shows "chain_integrity w' \<and> (targets_active cs w \<longrightarrow> successors_kept w w')"
  using perform_all_chain [of w cs w'] assms
  by (simp add: chain_integrity_links successors_kept_links)

theorem chain_integrity_preserved_witness:
  "chain_integrity (friendship_at_four (3/2)) \<and>
   targets_active [Progress 1] (friendship_at_four (3/2)) \<and>
   (\<exists>w'. perform_all [Progress 1] (friendship_at_four (3/2)) = Inr w' \<and>
      chain_integrity w' \<and> successors_kept (friendship_at_four (3/2)) w') \<and>
   successor_after [] (friendship_at_four (3/2)) 0 = Inr (Some 1) \<and>
   successor_after [Progress 1] (friendship_at_four (3/2)) 0 = Inr (Some 1) \<and>
   successor_after [Progress 1] (friendship_at_four (3/2)) 1 = Inr (Some 2)"
proof -
  let ?w = "friendship_at_four (3/2)"
  define w' where "w' = projr (perform_all [Progress 1] ?w)"
  have ci: "chain_integrity ?w"
    by (auto simp: chain_integrity_def friendship_at_four_def less_Suc_eq)
  have run: "perform_all [Progress 1] ?w = Inr w'"
    unfolding w'_def by (simp add: friendship_at_four_def model_defs example_defs)
  have ta: "targets_active [Progress 1] ?w"
    by (simp add: target_active_def friendship_at_four_def model_defs example_defs)
  have s: "successor_after [] ?w 0 = Inr (Some 1)"
    "successor_after [Progress 1] ?w 0 = Inr (Some 1)"
    "successor_after [Progress 1] ?w 1 = Inr (Some 2)"
    by (simp_all add: successor_after_def friendship_at_four_def model_defs example_defs)
  from chain_integrity_preserved [OF ci run] ta
  have "chain_integrity w' \<and> successors_kept ?w w'" by blast
  with ci ta run s show ?thesis by blast
qed

text \<open>
  The claim as stated fails: carol's acquaintance with erin crosses the friendship
  threshold at its second progression and gets the friendship 1 as successor; progressed
  once more through the old reference, it gets the new friendship 2 as successor.
\<close>

theorem successor_reassigned_counterexample:
  "successor_after [New_Acquaintance 2 4 None, Progress 0, Progress 0] town 0 = Inr (Some 1) \<and>
   successor_after [New_Acquaintance 2 4 None, Progress 0, Progress 0, Progress 0] town 0 =
     Inr (Some 2)"
  by (simp add: successor_after_def model_defs example_defs)

end
